theory Spec2Isabelle
  imports Main "HOL-Library.AList"
begin

section \<open>Python built-ins used by the program\<close>

text \<open>
  Python strings are modelled as \<^typ>\<open>string\<close>; a \<^typ>\<open>char\<close> stands for the code point
  of the same number, so the model covers text over the code points U+0000 to U+00FF.
  On that range \<open>str.lower\<close>, \<open>str.isdigit\<close> and \<open>int(str)\<close> behave as defined below.
\<close>

definition py_lower_char :: "char \<Rightarrow> char" where
  "py_lower_char c =
     (let n = (of_char c :: nat) in
      if (65 \<le> n \<and> n \<le> 90) \<or> (192 \<le> n \<and> n \<le> 222 \<and> n \<noteq> 215)
      then (case c of Char b0 b1 b2 b3 b4 b5 b6 b7 \<Rightarrow> Char b0 b1 b2 b3 b4 True b6 b7)
      else c)"

definition py_lower :: "string \<Rightarrow> string" where
  "py_lower s = map py_lower_char s"

definition is_decimal :: "char \<Rightarrow> bool" where
  "is_decimal c = (48 \<le> (of_char c :: nat) \<and> (of_char c :: nat) \<le> 57)"

definition decimal_value :: "char \<Rightarrow> nat" where
  "decimal_value c = of_char c - 48"

text \<open>\<open>str.isdigit\<close>: non-empty, and every character is a decimal digit or one of the
  superscript digits U+00B2, U+00B3, U+00B9 (digits that \<open>int\<close> does not accept).\<close>

definition py_isdigit_char :: "char \<Rightarrow> bool" where
  "py_isdigit_char c = (is_decimal c \<or> c = CHR 0xB2 \<or> c = CHR 0xB3 \<or> c = CHR 0xB9)"

definition py_isdigit :: "string \<Rightarrow> bool" where
  "py_isdigit s = (s \<noteq> [] \<and> list_all py_isdigit_char s)"

text \<open>
  \<open>int(s)\<close> for a string. It strips the ASCII whitespace from both ends and, of the code
  points above U+007F, U+0085 and U+00A0, which it reads as blanks. The separators U+001C
  to U+001F, which \<open>str.isspace\<close> accepts, are not stripped, so a text that holds one is
  rejected.
\<close>

definition int_space :: "char \<Rightarrow> bool" where
  "int_space c = (c \<in> {CHR 0x09, CHR 0x0A, CHR 0x0B, CHR 0x0C, CHR 0x0D, CHR 0x20,
                        CHR 0x85, CHR 0xA0})"

definition int_strip :: "string \<Rightarrow> string" where
  "int_strip s = rev (dropWhile int_space (rev (dropWhile int_space s)))"

text \<open>The digits of a base-10 literal, read after a digit: single underscores may
  separate digits.\<close>

fun digits_from :: "string \<Rightarrow> nat \<Rightarrow> nat option" where
  "digits_from [] acc = Some acc"
| "digits_from (c # cs) acc =
     (if is_decimal c then digits_from cs (10 * acc + decimal_value c)
      else if c = CHR ''_'' then
        (case cs of [] \<Rightarrow> None
         | d # ds \<Rightarrow> if is_decimal d then digits_from cs acc else None)
      else None)"

definition parse_body :: "string \<Rightarrow> nat option" where
  "parse_body s = (case s of [] \<Rightarrow> None
     | c # cs \<Rightarrow> if is_decimal c then digits_from s 0 else None)"

text \<open>\<open>int\<close> rejects a decimal literal of more than 4300 digits, leading zeros counted
  and underscores not: the default limit of the interpreter (\<open>sys.int_info\<close>), which the
  program does not change.\<close>

definition int_max_str_digits :: nat where
  "int_max_str_digits = 4300"

definition digit_count :: "string \<Rightarrow> nat" where
  "digit_count s = length (filter is_decimal s)"

text \<open>\<open>None\<close> stands for the \<open>ValueError\<close> that \<open>int\<close> raises.\<close>

definition py_int :: "string \<Rightarrow> int option" where
  "py_int s = (case int_strip s of [] \<Rightarrow> None
     | c # cs \<Rightarrow>
        (let body = (if c = CHR ''-'' \<or> c = CHR ''+'' then cs else c # cs) in
         if int_max_str_digits < digit_count body then None
         else if c = CHR ''-'' then map_option (\<lambda>n. - int n) (parse_body body)
         else map_option int (parse_body body)))"

datatype exn = AttributeError | ValueError

section \<open>Entities and the module registry\<close>

text \<open>
  The value of an entity's \<open>owned_status\<close> attribute: a boolean, a string (the legacy
  representation), or \<open>None\<close>.
\<close>

datatype pyval = PBool bool | PStr string | PNone

text \<open>
  A module object. The program tests several attributes with \<open>hasattr\<close> before it uses
  them; such an attribute is an option, \<open>None\<close> meaning that the object does not have it.
  The \<open>_var\<close> attributes are the Tk variables the grid attaches to the object, modelled
  by the value they hold.
\<close>

record module =
  name :: string
  display_name :: string
  faction :: string
  ship_type :: string
  is_capital_ship :: "bool option"
  owned_status :: "pyval option"
  blueprint_owned :: "bool option"
  ownership_var :: "string option"
  invented_var :: "bool option"
  me_var :: "string option"
  te_var :: "string option"

text \<open>Module objects are shared between the registry and the grid, so they live in a
  store and the dictionaries hold references. A dictionary is an association list in
  insertion order.\<close>

type_synonym ref = nat
type_synonym heap = "ref \<Rightarrow> module"

record registry =
  ships :: "(string \<times> ref) list"
  capital_ships :: "(string \<times> ref) list"
  components :: "(string \<times> ref) list"
  capital_components :: "(string \<times> ref) list"
  factions :: "string set"
  ship_types :: "string set"

definition new_registry :: registry where
  "new_registry = \<lparr>ships = [], capital_ships = [], components = [], capital_components = [],
     factions = {''All''}, ship_types = {''All''}\<rparr>"

definition register_ship :: "heap \<Rightarrow> ref \<Rightarrow> registry \<Rightarrow> registry" where
  "register_ship h ship reg =
     (let reg1 = reg\<lparr>ships := AList.update (name (h ship)) ship (ships reg)\<rparr>;
          reg2 = (if faction (h ship) \<noteq> [] \<and> faction (h ship) \<notin> factions reg1
                  then reg1\<lparr>factions := insert (faction (h ship)) (factions reg1)\<rparr> else reg1)
      in if ship_type (h ship) \<noteq> [] \<and> ship_type (h ship) \<notin> ship_types reg2
         then reg2\<lparr>ship_types := insert (ship_type (h ship)) (ship_types reg2)\<rparr> else reg2)"

definition register_capital_ship :: "heap \<Rightarrow> ref \<Rightarrow> registry \<Rightarrow> registry" where
  "register_capital_ship h capital_ship reg =
     (let reg1 = reg\<lparr>capital_ships :=
                   AList.update (name (h capital_ship)) capital_ship (capital_ships reg)\<rparr>;
          reg2 = (if faction (h capital_ship) \<noteq> [] \<and> faction (h capital_ship) \<notin> factions reg1
                  then reg1\<lparr>factions := insert (faction (h capital_ship)) (factions reg1)\<rparr>
                  else reg1)
      in if ship_type (h capital_ship) \<noteq> [] \<and> ship_type (h capital_ship) \<notin> ship_types reg2
         then reg2\<lparr>ship_types := insert (ship_type (h capital_ship)) (ship_types reg2)\<rparr>
         else reg2)"

text \<open>The ownership test of the filters: \<open>isinstance(x, bool) and x\<close> or
  \<open>isinstance(x, str) and x.lower() == "owned"\<close>. Reading the attribute of an object
  that lacks it raises \<open>AttributeError\<close>.\<close>

definition owned_truthy :: "module \<Rightarrow> exn + bool" where
  "owned_truthy m = (case owned_status m of
       None \<Rightarrow> Inl AttributeError
     | Some v \<Rightarrow> Inr ((case v of PBool b \<Rightarrow> b | _ \<Rightarrow> False) \<or>
                      (case v of PStr s \<Rightarrow> py_lower s = ''owned'' | _ \<Rightarrow> False)))"

text \<open>\<open>not faction\<close>: the argument is \<open>None\<close> or the empty string.\<close>

definition falsy :: "string option \<Rightarrow> bool" where
  "falsy f = (case f of None \<Rightarrow> True | Some s \<Rightarrow> s = [])"

definition ship_filter_cond :: "string option \<Rightarrow> string option \<Rightarrow> bool \<Rightarrow> module \<Rightarrow> exn + bool" where
  "ship_filter_cond fac sty owned_only m =
     (if (falsy fac \<or> fac = Some ''All'' \<or> Some (faction m) = fac) \<and>
         (falsy sty \<or> sty = Some ''All'' \<or> Some (ship_type m) = sty)
      then (if \<not> owned_only then Inr True else owned_truthy m)
      else Inr False)"

text \<open>A list comprehension whose condition may raise: the first exception ends it.\<close>

fun comprehension :: "('a \<Rightarrow> exn + bool) \<Rightarrow> 'a list \<Rightarrow> exn + 'a list" where
  "comprehension p [] = Inr []"
| "comprehension p (x # xs) =
     (case p x of
        Inl e \<Rightarrow> Inl e
      | Inr b \<Rightarrow> (case comprehension p xs of
                    Inl e \<Rightarrow> Inl e
                  | Inr ys \<Rightarrow> Inr (if b then x # ys else ys)))"

definition get_ships_by_filter ::
  "registry \<Rightarrow> heap \<Rightarrow> string option \<Rightarrow> string option \<Rightarrow> bool \<Rightarrow> exn + ref list" where
  "get_ships_by_filter reg h fac sty owned_only =
     comprehension (\<lambda>ship. ship_filter_cond fac sty owned_only (h ship)) (map snd (ships reg))"

definition get_ship_by_display_name :: "registry \<Rightarrow> heap \<Rightarrow> string \<Rightarrow> ref option" where
  "get_ship_by_display_name reg h dn =
     find (\<lambda>ship. display_name (h ship) = dn) (map snd (ships reg))"

definition get_capital_ship_by_display_name :: "registry \<Rightarrow> heap \<Rightarrow> string \<Rightarrow> ref option" where
  "get_capital_ship_by_display_name reg h dn =
     find (\<lambda>ship. display_name (h ship) = dn) (map snd (capital_ships reg))"

text \<open>\<open>if ship:\<close> holds for every module object, so the test is whether the first
  lookup found one.\<close>

definition get_ship_by_display_name_combined :: "registry \<Rightarrow> heap \<Rightarrow> string \<Rightarrow> ref option" where
  "get_ship_by_display_name_combined reg h dn =
     (case get_ship_by_display_name reg h dn of
        Some ship \<Rightarrow> Some ship
      | None \<Rightarrow> get_capital_ship_by_display_name reg h dn)"

text \<open>The filter of \<open>get_ships_by_filter\<close> in the words of the specification.\<close>

definition filter_absent :: "string option \<Rightarrow> bool" where
  "filter_absent f = (f = None \<or> f = Some [])"

definition ownership_holds :: "pyval option \<Rightarrow> bool" where
  "ownership_holds v = (case v of
       Some (PBool b) \<Rightarrow> b
     | Some (PStr s) \<Rightarrow> py_lower s = ''owned''
     | _ \<Rightarrow> False)"

definition matches_filter :: "string option \<Rightarrow> string option \<Rightarrow> bool \<Rightarrow> module \<Rightarrow> bool" where
  "matches_filter fac sty owned_only m =
     ((Some (faction m) = fac \<or> filter_absent fac \<or> fac = Some ''All'') \<and>
      (Some (ship_type m) = sty \<or> filter_absent sty \<or> sty = Some ''All'') \<and>
      (if owned_only then ownership_holds (owned_status m) else True))"

section \<open>Category keys\<close>

definition category_mapping :: "(string \<times> string) list" where
  "category_mapping =
     [(''Ships'', ''ship_blueprints''),
      (''Capital Ships'', ''capital_ship_blueprints''),
      (''Components'', ''components''),
      (''Capital Components'', ''component_blueprints'')]"

definition get_category_from_module_type :: "string \<Rightarrow> string" where
  "get_category_from_module_type module_type =
     (case map_of category_mapping module_type of
        Some c \<Rightarrow> c
      | None \<Rightarrow> py_lower module_type)"

text \<open>The category \<open>update_ship_ownership\<close> chooses for a ship object.\<close>

definition ship_category :: "module \<Rightarrow> string" where
  "ship_category m =
     (if (case is_capital_ship m of None \<Rightarrow> False | Some b \<Rightarrow> b)
      then ''capital_ship_blueprints'' else ''ship_blueprints'')"

section \<open>The ownership overlay\<close>

text \<open>
  An overlay record holds the four fields the data model gives it. The overlay
  (\<open>blueprint_config\<close>) is a dictionary from category key to a dictionary from entity
  name to record; it is only looked up and updated by key, so it is a map of maps.
\<close>

record blueprint =
  owned :: bool
  invented :: bool
  me :: int
  te :: int

type_synonym overlay = "string \<rightharpoonup> (string \<rightharpoonup> blueprint)"

text \<open>\<open>category in config and name in config[category]\<close>, with the record found.\<close>

definition record_at :: "overlay \<Rightarrow> string \<Rightarrow> string \<Rightarrow> blueprint option" where
  "record_at cfg category n = (case cfg category of None \<Rightarrow> None | Some entries \<Rightarrow> entries n)"

definition entries_of :: "overlay \<Rightarrow> string \<Rightarrow> (string \<rightharpoonup> blueprint)" where
  "entries_of cfg category = (case cfg category of None \<Rightarrow> Map.empty | Some entries \<Rightarrow> entries)"

text \<open>\<open>if category not in config: config[category] = {}\<close> followed by
  \<open>config[category][name] = r\<close>.\<close>

definition set_record :: "overlay \<Rightarrow> string \<Rightarrow> string \<Rightarrow> blueprint \<Rightarrow> overlay" where
  "set_record cfg category n r = cfg(category \<mapsto> (entries_of cfg category)(n \<mapsto> r))"

definition default_blueprint :: blueprint where
  "default_blueprint = \<lparr>owned = False, invented = False, me = 0, te = 0\<rparr>"

text \<open>Modelled from the spec: \<open>update_blueprint_me\<close> of \<open>core.config.blueprint_config\<close>,
  which is not among the sources. If the overlay has no record for (category, name), one
  is created with the edited field set and all other fields at their defaults; otherwise
  only the edited field is updated in place.\<close>

definition update_blueprint_me :: "overlay \<Rightarrow> string \<Rightarrow> string \<Rightarrow> int \<Rightarrow> overlay" where
  "update_blueprint_me cfg category n v =
     (case record_at cfg category n of
        None \<Rightarrow> set_record cfg category n (default_blueprint\<lparr>me := v\<rparr>)
      | Some r \<Rightarrow> set_record cfg category n (r\<lparr>me := v\<rparr>))"

text \<open>Modelled from the spec: \<open>update_blueprint_te\<close> of \<open>core.config.blueprint_config\<close>,
  which is not among the sources; the same create-or-update step on the \<open>te\<close> field.\<close>

definition update_blueprint_te :: "overlay \<Rightarrow> string \<Rightarrow> string \<Rightarrow> int \<Rightarrow> overlay" where
  "update_blueprint_te cfg category n v =
     (case record_at cfg category n of
        None \<Rightarrow> set_record cfg category n (default_blueprint\<lparr>te := v\<rparr>)
      | Some r \<Rightarrow> set_record cfg category n (r\<lparr>te := v\<rparr>))"

text \<open>Modelled from the spec: \<open>update_blueprint_ownership\<close> of
  \<open>core.config.blueprint_config\<close>, which is not among the sources; the same
  create-or-update step on the \<open>owned\<close> field, which holds whether the value passed is
  \<open>"Owned"\<close>.\<close>

definition update_blueprint_ownership :: "overlay \<Rightarrow> string \<Rightarrow> string \<Rightarrow> string \<Rightarrow> overlay" where
  "update_blueprint_ownership cfg category n v =
     (case record_at cfg category n of
        None \<Rightarrow> set_record cfg category n (default_blueprint\<lparr>owned := (v = ''Owned'')\<rparr>)
      | Some r \<Rightarrow> set_record cfg category n (r\<lparr>owned := (v = ''Owned'')\<rparr>))"

section \<open>The blueprint manager\<close>

text \<open>
  The state of a \<open>BlueprintManager\<close>: its dictionary of discovered modules (category name
  to name to module object), the overlay, the registry, and the store of module objects.
\<close>

record manager =
  discovered_modules :: "(string \<times> (string \<times> ref) list) list"
  blueprint_config :: overlay
  module_registry :: registry
  objects :: heap

subsection \<open>\<open>refresh_registry_if_needed\<close>\<close>

text \<open>
  The manager is built with a registry object, so the guard
  \<open>hasattr(self, 'module_registry') and self.module_registry\<close> holds. Debug output and
  the status line are left out throughout.
\<close>

text \<open>The assignment to \<open>owned_status\<close>, or else to \<open>blueprint_owned\<close>.\<close>

definition set_owned_attr :: "bool \<Rightarrow> module \<Rightarrow> module" where
  "set_owned_attr is_owned m =
     (if owned_status m \<noteq> None then m\<lparr>owned_status := Some (PBool is_owned)\<rparr>
      else if blueprint_owned m \<noteq> None then m\<lparr>blueprint_owned := Some is_owned\<rparr>
      else m)"

text \<open>On the initial load the radio-button variable follows the overlay.\<close>

definition sync_ownership_var :: "bool \<Rightarrow> bool \<Rightarrow> module \<Rightarrow> module" where
  "sync_ownership_var initial_load is_owned m =
     (if initial_load \<and> ownership_var m \<noteq> None then
        (let ownership_value = (if is_owned then ''owned'' else ''unowned'') in
         if ownership_var m \<noteq> Some ownership_value
         then m\<lparr>ownership_var := Some ownership_value\<rparr> else m)
      else m)"

text \<open>One module of the loop over the discovered modules, and the loop over one
  category: the overlay category is resolved from the key of the category.\<close>

fun refresh_module :: "overlay \<Rightarrow> bool \<Rightarrow> string \<Rightarrow> string \<times> ref \<Rightarrow> heap \<Rightarrow> heap" where
  "refresh_module cfg initial_load config_category (module_name, module) h =
     (case record_at cfg config_category module_name of
        None \<Rightarrow> h
      | Some r \<Rightarrow>
          h(module := sync_ownership_var initial_load (owned r) (set_owned_attr (owned r) (h module))))"

fun refresh_modules :: "overlay \<Rightarrow> bool \<Rightarrow> string \<times> (string \<times> ref) list \<Rightarrow> heap \<Rightarrow> heap" where
  "refresh_modules cfg initial_load (category_name, modules) h =
     fold (refresh_module cfg initial_load (get_category_from_module_type category_name)) modules h"

text \<open>The loops over the registry's ships and capital ships that run on the initial
  load: the attribute is assigned without a \<open>hasattr\<close> test.\<close>

fun load_ship :: "overlay \<Rightarrow> string \<Rightarrow> string \<times> ref \<Rightarrow> heap \<Rightarrow> heap" where
  "load_ship cfg category (ship_name, ship) h =
     (case record_at cfg category ship_name of
        None \<Rightarrow> h
      | Some r \<Rightarrow> h(ship := (h ship)\<lparr>owned_status := Some (PBool (owned r))\<rparr>))"

definition refresh_registry_if_needed :: "bool \<Rightarrow> manager \<Rightarrow> manager" where
  "refresh_registry_if_needed initial_load s =
     (let cfg = blueprint_config s;
          h1 = (if initial_load
                then fold (load_ship cfg ''capital_ship_blueprints'')
                       (capital_ships (module_registry s))
                       (fold (load_ship cfg ''ship_blueprints'') (ships (module_registry s))
                          (objects s))
                else objects s)
      in s\<lparr>objects := fold (refresh_modules cfg initial_load) (discovered_modules s) h1\<rparr>)"

subsection \<open>Single edits\<close>

text \<open>\<open>validate_me\<close> and \<open>validate_te\<close> take the text of the entry widget; rewriting the
  widget's text is left out.\<close>

definition validate_me :: "string \<Rightarrow> string \<Rightarrow> string \<Rightarrow> manager \<Rightarrow> manager" where
  "validate_me v category module_name s =
     refresh_registry_if_needed False
       (case py_int v of
          Some n \<Rightarrow>
            (let me_value = (if n < 0 then 0 else if n > 10 then 10 else n) in
             s\<lparr>blueprint_config :=
                 update_blueprint_me (blueprint_config s) category module_name me_value\<rparr>)
        | None \<Rightarrow>
            s\<lparr>blueprint_config := update_blueprint_me (blueprint_config s) category module_name 0\<rparr>)"

definition validate_te :: "string \<Rightarrow> string \<Rightarrow> string \<Rightarrow> manager \<Rightarrow> manager" where
  "validate_te v category module_name s =
     refresh_registry_if_needed False
       (case py_int v of
          Some n \<Rightarrow>
            (let te_value = (if n < 0 then 0 else if n > 20 then 20 else n) in
             s\<lparr>blueprint_config :=
                 update_blueprint_te (blueprint_config s) category module_name te_value\<rparr>)
        | None \<Rightarrow>
            s\<lparr>blueprint_config := update_blueprint_te (blueprint_config s) category module_name 0\<rparr>)"

text \<open>\<open>validate_capital_component_me\<close> and \<open>validate_capital_component_te\<close>, the handlers
  bound to the ME and TE entries of the capital components grid. On a text that \<open>int\<close>
  rejects they only reset the entry: the overlay is not touched. Rewriting the entry's
  text is left out here too.\<close>

definition validate_capital_component_me :: "string \<Rightarrow> string \<Rightarrow> manager \<Rightarrow> manager" where
  "validate_capital_component_me v comp_name s =
     (case py_int v of
        Some n \<Rightarrow>
          (let me_value = (if n < 0 then 0 else if n > 10 then 10 else n) in
           s\<lparr>blueprint_config :=
               update_blueprint_me (blueprint_config s) ''component_blueprints'' comp_name me_value\<rparr>)
      | None \<Rightarrow> s)"

definition validate_capital_component_te :: "string \<Rightarrow> string \<Rightarrow> manager \<Rightarrow> manager" where
  "validate_capital_component_te v comp_name s =
     (case py_int v of
        Some n \<Rightarrow>
          (let te_value = (if n < 0 then 0 else if n > 20 then 20 else n) in
           s\<lparr>blueprint_config :=
               update_blueprint_te (blueprint_config s) ''component_blueprints'' comp_name te_value\<rparr>)
      | None \<Rightarrow> s)"

text \<open>\<open>update_ship_ownership\<close>: the edit of a ship's ownership from the grid.\<close>

definition update_ship_ownership :: "string \<Rightarrow> ref \<Rightarrow> string \<Rightarrow> manager \<Rightarrow> manager" where
  "update_ship_ownership module_name module v s =
     (let category = ship_category (objects s module);
          config_value = (if v = ''owned'' then ''Owned'' else ''Unowned'')
      in s\<lparr>blueprint_config :=
              update_blueprint_ownership (blueprint_config s) category module_name config_value,
            objects := (objects s)
              (module := (objects s module)\<lparr>owned_status := Some (PBool (config_value = ''Owned''))\<rparr>)\<rparr>)"

text \<open>The range of the specification: \<open>clamp(v, lo, hi)\<close>.\<close>

definition clamp :: "int \<Rightarrow> int \<Rightarrow> int \<Rightarrow> int" where
  "clamp v lo hi = max lo (min hi v)"

subsection \<open>\<open>update_all_ownership_values\<close>\<close>

text \<open>First loop, capital components: the record is created with the ownership read from
  the radio button, or its \<open>owned\<close> field is updated.\<close>

definition save_capital_component_ownership :: "string \<Rightarrow> module \<Rightarrow> overlay \<Rightarrow> overlay" where
  "save_capital_component_ownership module_name m cfg =
     (let is_owned = (ownership_var m = Some ''owned'') in
      case record_at cfg ''component_blueprints'' module_name of
        None \<Rightarrow> set_record cfg ''component_blueprints'' module_name
                  \<lparr>owned = is_owned, invented = False, me = 0, te = 0\<rparr>
      | Some r \<Rightarrow> set_record cfg ''component_blueprints'' module_name (r\<lparr>owned := is_owned\<rparr>))"

text \<open>\<open>int(var.get()) if var and var.get().isdigit() else 0\<close>: \<open>int\<close> raises on a text
  of digits that it does not accept.\<close>

definition read_digits :: "string option \<Rightarrow> exn + int" where
  "read_digits var =
     (case var of
        None \<Rightarrow> Inr 0
      | Some s \<Rightarrow>
          if py_isdigit s
          then (case py_int s of None \<Rightarrow> Inl ValueError | Some n \<Rightarrow> Inr n)
          else Inr 0)"

text \<open>First loop, the other categories: the body of the \<open>try\<close>.\<close>

definition save_ownership :: "string \<Rightarrow> string \<Rightarrow> module \<Rightarrow> overlay \<Rightarrow> exn + overlay" where
  "save_ownership category module_name m cfg =
     (let is_owned = (ownership_var m = Some ''owned'');
          is_invented = (case invented_var m of None \<Rightarrow> False | Some b \<Rightarrow> b)
      in case read_digits (me_var m) of
           Inl e \<Rightarrow> Inl e
         | Inr me_value \<Rightarrow>
            (case read_digits (te_var m) of
               Inl e \<Rightarrow> Inl e
             | Inr te_value \<Rightarrow>
                Inr (case record_at cfg category module_name of
                       None \<Rightarrow> set_record cfg category module_name
                                 \<lparr>owned = is_owned, invented = is_invented,
                                  me = me_value, te = te_value\<rparr>
                     | Some r \<Rightarrow> set_record cfg category module_name
                                 (r\<lparr>owned := is_owned, invented := is_invented,
                                    me := me_value, te := te_value\<rparr>))))"

text \<open>The body of the \<open>try\<close> raises when a text passes \<open>isdigit\<close> and \<open>int\<close>
  rejects it.\<close>

definition raises_in_ownership_step :: "module \<Rightarrow> bool" where
  "raises_in_ownership_step m =
     (read_digits (me_var m) = Inl ValueError \<or> read_digits (te_var m) = Inl ValueError)"

text \<open>One module of the first loop; \<open>except Exception: pass\<close> keeps the overlay as it
  was.\<close>

fun ownership_step :: "string \<Rightarrow> string \<Rightarrow> heap \<Rightarrow> string \<times> ref \<Rightarrow> overlay \<Rightarrow> overlay" where
  "ownership_step category_name category h (module_name, module) cfg =
     (if category_name = ''capital_components'' then
        (if ownership_var (h module) \<noteq> None
         then save_capital_component_ownership module_name (h module) cfg else cfg)
      else if ownership_var (h module) \<noteq> None then
        (case save_ownership category module_name (h module) cfg of
           Inl e \<Rightarrow> cfg
         | Inr cfg' \<Rightarrow> cfg')
      else cfg)"

fun ownership_pass :: "heap \<Rightarrow> string \<times> (string \<times> ref) list \<Rightarrow> overlay \<Rightarrow> overlay" where
  "ownership_pass h (category_name, modules) cfg =
     (let category = get_category_from_module_type category_name in
      if category = [] \<or> modules = [] then cfg
      else fold (ownership_step category_name category h) modules cfg)"

text \<open>One module of the second loop (ME).\<close>

fun me_step :: "string \<Rightarrow> string \<Rightarrow> string \<times> ref \<Rightarrow> heap \<times> overlay \<Rightarrow> heap \<times> overlay" where
  "me_step category_name category (module_name, module) (h, cfg) =
     (case me_var (h module) of
        None \<Rightarrow> (h, cfg)
      | Some text \<Rightarrow>
         (case py_int text of
            Some n \<Rightarrow>
              (let me_value = (if n < 0 then 0 else n);
                   h1 = (if n < 0 then h(module := (h module)\<lparr>me_var := Some ''0''\<rparr>) else h)
               in if category_name = ''capital_components'' then
                    (h1, case record_at cfg ''component_blueprints'' module_name of
                           None \<Rightarrow> set_record cfg ''component_blueprints'' module_name
                                     \<lparr>owned = False, invented = False, me = me_value, te = 0\<rparr>
                         | Some r \<Rightarrow> set_record cfg ''component_blueprints'' module_name
                                     (r\<lparr>me := me_value\<rparr>))
                  else (h1, update_blueprint_me cfg category module_name me_value))
          | None \<Rightarrow>
              (let h1 = h(module := (h module)\<lparr>me_var := Some ''0''\<rparr>)
               in if category_name = ''capital_components'' then
                    (h1, case record_at cfg ''component_blueprints'' module_name of
                           None \<Rightarrow> cfg
                         | Some r \<Rightarrow> set_record cfg ''component_blueprints'' module_name
                                     (r\<lparr>me := 0\<rparr>))
                  else (h1, update_blueprint_me cfg category module_name 0))))"

fun me_pass :: "string \<times> (string \<times> ref) list \<Rightarrow> heap \<times> overlay \<Rightarrow> heap \<times> overlay" where
  "me_pass (category_name, modules) st =
     fold (me_step category_name (get_category_from_module_type category_name)) modules st"

text \<open>One module of the third loop (TE).\<close>

fun te_step :: "string \<Rightarrow> string \<Rightarrow> string \<times> ref \<Rightarrow> heap \<times> overlay \<Rightarrow> heap \<times> overlay" where
  "te_step category_name category (module_name, module) (h, cfg) =
     (case te_var (h module) of
        None \<Rightarrow> (h, cfg)
      | Some text \<Rightarrow>
         (case py_int text of
            Some n \<Rightarrow>
              (let te_value = (if n < 0 then 0 else n);
                   h1 = (if n < 0 then h(module := (h module)\<lparr>te_var := Some ''0''\<rparr>) else h)
               in if category_name = ''capital_components'' then
                    (h1, case record_at cfg ''component_blueprints'' module_name of
                           None \<Rightarrow> set_record cfg ''component_blueprints'' module_name
                                     \<lparr>owned = False, invented = False, me = 0, te = te_value\<rparr>
                         | Some r \<Rightarrow> set_record cfg ''component_blueprints'' module_name
                                     (r\<lparr>te := te_value\<rparr>))
                  else (h1, update_blueprint_te cfg category module_name te_value))
          | None \<Rightarrow>
              (let h1 = h(module := (h module)\<lparr>te_var := Some ''0''\<rparr>)
               in if category_name = ''capital_components'' then
                    (h1, case record_at cfg ''component_blueprints'' module_name of
                           None \<Rightarrow> cfg
                         | Some r \<Rightarrow> set_record cfg ''component_blueprints'' module_name
                                     (r\<lparr>te := 0\<rparr>))
                  else (h1, update_blueprint_te cfg category module_name 0))))"

fun te_pass :: "string \<times> (string \<times> ref) list \<Rightarrow> heap \<times> overlay \<Rightarrow> heap \<times> overlay" where
  "te_pass (category_name, modules) st =
     fold (te_step category_name (get_category_from_module_type category_name)) modules st"

text \<open>The three loops. \<open>save_blueprint_ownership\<close> is the store's flush; it is a
  parameter that tells whether the flush succeeded.\<close>

definition bulk_loops :: "(string \<times> (string \<times> ref) list) list \<Rightarrow> heap \<times> overlay \<Rightarrow> heap \<times> overlay" where
  "bulk_loops dm st =
     fold te_pass dm (fold me_pass dm (fst st, fold (ownership_pass (fst st)) dm (snd st)))"

definition update_all_ownership_values :: "(overlay \<Rightarrow> bool) \<Rightarrow> manager \<Rightarrow> bool \<times> manager" where
  "update_all_ownership_values save_blueprint_ownership s =
     (let st = bulk_loops (discovered_modules s) (objects s, blueprint_config s)
      in (save_blueprint_ownership (snd st), s\<lparr>objects := fst st, blueprint_config := snd st\<rparr>))"

subsection \<open>\<open>reset_all_ship_ownership\<close>\<close>

text \<open>One ship of a reset loop: the attribute is cleared when the object has it, and the
  overlay record of the ship's name when there is one. Nothing in the loops raises, so the
  \<open>except\<close> branch of the method is not reached.\<close>

fun reset_ship :: "string \<Rightarrow> string \<times> ref \<Rightarrow> heap \<times> overlay \<Rightarrow> heap \<times> overlay" where
  "reset_ship category (ship_name, ship) (h, cfg) =
     (if owned_status (h ship) \<noteq> None
      then h(ship := (h ship)\<lparr>owned_status := Some (PBool False)\<rparr>) else h,
      case record_at cfg category ship_name of
        None \<Rightarrow> cfg
      | Some r \<Rightarrow> set_record cfg category ship_name (r\<lparr>owned := False\<rparr>))"

definition reset_all_ship_ownership :: "(overlay \<Rightarrow> bool) \<Rightarrow> manager \<Rightarrow> bool \<times> manager" where
  "reset_all_ship_ownership save_blueprint_ownership s =
     (let st = fold (reset_ship ''capital_ship_blueprints'') (capital_ships (module_registry s))
                 (fold (reset_ship ''ship_blueprints'') (ships (module_registry s))
                    (objects s, blueprint_config s))
      in (save_blueprint_ownership (snd st), s\<lparr>objects := fst st, blueprint_config := snd st\<rparr>))"

section \<open>The bulk save as a sequence of writes\<close>

text \<open>
  The notions below serve the proofs about the bulk save as a whole: what it leaves in
  the overlay for each module, and what a second bulk save changes. A write creates the
  record of a key from the defaults when it is missing and then changes some of its
  fields.
\<close>

definition put :: "string \<Rightarrow> string \<Rightarrow> (blueprint \<Rightarrow> blueprint) \<Rightarrow> overlay \<Rightarrow> overlay" where
  "put c n g cfg =
     set_record cfg c n (g (case record_at cfg c n of None \<Rightarrow> default_blueprint | Some r \<Rightarrow> r))"

fun apply_write :: "(string \<times> string \<times> (blueprint \<Rightarrow> blueprint)) option \<Rightarrow> overlay \<Rightarrow> overlay" where
  "apply_write None cfg = cfg"
| "apply_write (Some (c, n, g)) cfg = put c n g cfg"

text \<open>A function on records that sets each field to a fixed value or leaves it.\<close>

definition is_assignment :: "(blueprint \<Rightarrow> blueprint) \<Rightarrow> bool" where
  "is_assignment g \<longleftrightarrow>
     ((\<forall>r. owned (g r) = owned r) \<or> (\<exists>v. \<forall>r. owned (g r) = v)) \<and>
     ((\<forall>r. invented (g r) = invented r) \<or> (\<exists>v. \<forall>r. invented (g r) = v)) \<and>
     ((\<forall>r. me (g r) = me r) \<or> (\<exists>v. \<forall>r. me (g r) = v)) \<and>
     ((\<forall>r. te (g r) = te r) \<or> (\<exists>v. \<forall>r. te (g r) = v))"

definition write_keys ::
  "(string \<times> string \<times> (blueprint \<Rightarrow> blueprint)) option list \<Rightarrow> (string \<times> string) set" where
  "write_keys ws = {(c, n). \<exists>g. Some (c, n, g) \<in> set ws}"

definition record_or_default :: "overlay \<Rightarrow> string \<Rightarrow> string \<Rightarrow> blueprint" where
  "record_or_default cfg c n =
     (case record_at cfg c n of None \<Rightarrow> default_blueprint | Some r \<Rightarrow> r)"

text \<open>The value the ME and TE loops write for a text, and the value the first loop
  reads from a Tk variable when it does not raise.\<close>

definition text_value :: "string \<Rightarrow> int" where
  "text_value t = (case py_int t of None \<Rightarrow> 0 | Some k \<Rightarrow> if k < 0 then 0 else k)"

definition digits_value :: "string option \<Rightarrow> int" where
  "digits_value v =
     (case v of None \<Rightarrow> 0
      | Some t \<Rightarrow> if py_isdigit t then (case py_int t of None \<Rightarrow> 0 | Some k \<Rightarrow> k) else 0)"

text \<open>The write of each loop for one module of the category \<open>cn\<close>, if it makes one.\<close>

definition ownership_write ::
  "heap \<Rightarrow> string \<Rightarrow> string \<times> ref \<Rightarrow> (string \<times> string \<times> (blueprint \<Rightarrow> blueprint)) option" where
  "ownership_write h cn e =
     (if get_category_from_module_type cn = [] then None
      else if cn = ''capital_components'' then
        (if ownership_var (h (snd e)) \<noteq> None
         then Some (''component_blueprints'', fst e,
                    \<lambda>r. r\<lparr>owned := (ownership_var (h (snd e)) = Some ''owned'')\<rparr>)
         else None)
      else if ownership_var (h (snd e)) \<noteq> None \<and> \<not> raises_in_ownership_step (h (snd e)) then
        Some (get_category_from_module_type cn, fst e,
              \<lambda>r. r\<lparr>owned := (ownership_var (h (snd e)) = Some ''owned''),
                     invented := (case invented_var (h (snd e)) of None \<Rightarrow> False | Some b \<Rightarrow> b),
                     me := digits_value (me_var (h (snd e))),
                     te := digits_value (te_var (h (snd e)))\<rparr>)
      else None)"

definition write_category :: "string \<Rightarrow> string" where
  "write_category cn =
     (if cn = ''capital_components'' then ''component_blueprints''
      else get_category_from_module_type cn)"

definition me_write ::
  "heap \<Rightarrow> string \<Rightarrow> string \<times> ref \<Rightarrow> (string \<times> string \<times> (blueprint \<Rightarrow> blueprint)) option" where
  "me_write h cn e =
     (case me_var (h (snd e)) of None \<Rightarrow> None
      | Some t \<Rightarrow> Some (write_category cn, fst e, \<lambda>r. r\<lparr>me := text_value t\<rparr>))"

definition te_write ::
  "heap \<Rightarrow> string \<Rightarrow> string \<times> ref \<Rightarrow> (string \<times> string \<times> (blueprint \<Rightarrow> blueprint)) option" where
  "te_write h cn e =
     (case te_var (h (snd e)) of None \<Rightarrow> None
      | Some t \<Rightarrow> Some (write_category cn, fst e, \<lambda>r. r\<lparr>te := text_value t\<rparr>))"

definition writes_of ::
  "(string \<Rightarrow> string \<times> ref \<Rightarrow> (string \<times> string \<times> (blueprint \<Rightarrow> blueprint)) option) \<Rightarrow>
   (string \<times> (string \<times> ref) list) list \<Rightarrow>
   (string \<times> string \<times> (blueprint \<Rightarrow> blueprint)) option list" where
  "writes_of w dm = concat (map (\<lambda>p. map (w (fst p)) (snd p)) dm)"

definition bulk_writes ::
  "(string \<times> (string \<times> ref) list) list \<Rightarrow> heap \<Rightarrow>
   (string \<times> string \<times> (blueprint \<Rightarrow> blueprint)) option list" where
  "bulk_writes dm h =
     writes_of (ownership_write h) dm @ writes_of (me_write h) dm @ writes_of (te_write h) dm"

text \<open>The ME and TE loops replace a text that is negative or not an integer by
  \<open>"0"\<close>. \<open>heap_rel h g\<close>: the store \<open>g\<close> is \<open>h\<close> with some of these replacements
  made.\<close>

definition resets :: "string \<Rightarrow> bool" where
  "resets t = (case py_int t of None \<Rightarrow> True | Some k \<Rightarrow> k < 0)"

definition text_rel :: "string option \<Rightarrow> string option \<Rightarrow> bool" where
  "text_rel v v' =
     (case v of None \<Rightarrow> v' = None | Some t \<Rightarrow> v' = Some t \<or> (resets t \<and> v' = Some ''0''))"

definition heap_rel :: "heap \<Rightarrow> heap \<Rightarrow> bool" where
  "heap_rel h g \<longleftrightarrow>
     (\<forall>r. \<exists>a b. g r = (h r)\<lparr>me_var := a, te_var := b\<rparr> \<and>
             text_rel (me_var (h r)) a \<and> text_rel (te_var (h r)) b)"

text \<open>A set of keys whose records exist.\<close>

definition has_records :: "(string \<times> string) set \<Rightarrow> overlay \<Rightarrow> bool" where
  "has_records K cfg \<longleftrightarrow> (\<forall>(c, n)\<in>K. record_at cfg c n \<noteq> None)"

definition unparsed :: "string option \<Rightarrow> bool" where
  "unparsed v = (case v of None \<Rightarrow> False | Some t \<Rightarrow> py_int t = None)"

text \<open>
  The states on which the repeated bulk save is considered. Outside the capital
  components, a module with an ownership variable holds no ME or TE text that
  \<open>isdigit\<close> accepts and \<open>int\<close> rejects, so the first loop raises nothing. A capital
  component whose ME or TE text is not an integer has an ownership variable, so the first
  loop has created its record before the ME and TE loops reach it.
\<close>

definition entry_ok :: "string \<Rightarrow> module \<Rightarrow> bool" where
  "entry_ok cn m =
     (if cn = ''capital_components''
      then ownership_var m \<noteq> None \<or> (\<not> unparsed (me_var m) \<and> \<not> unparsed (te_var m))
      else ownership_var m = None \<or> \<not> raises_in_ownership_step m)"

definition texts_ok :: "(string \<times> (string \<times> ref) list) list \<Rightarrow> heap \<Rightarrow> bool" where
  "texts_ok dm h = list_all (\<lambda>p. list_all (\<lambda>e. entry_ok (fst p) (h (snd e))) (snd p)) dm"

definition capital_keys :: "(string \<times> (string \<times> ref) list) list \<Rightarrow> heap \<Rightarrow> (string \<times> string) set" where
  "capital_keys dm h =
     {(''component_blueprints'', fst e) | p e.
        p \<in> set dm \<and> e \<in> set (snd p) \<and> fst p = ''capital_components'' \<and>
        ownership_var (h (snd e)) \<noteq> None}"

text \<open>
  The entries of the discovered modules with the name of their category, and the overlay
  key under which the bulk save writes each of them.
\<close>

definition entries :: "(string \<times> (string \<times> ref) list) list \<Rightarrow> (string \<times> string \<times> ref) list" where
  "entries dm = concat (map (\<lambda>p. map (\<lambda>e. (fst p, e)) (snd p)) dm)"



section \<open>Example states\<close>

text \<open>Five ships and a capital ship that shares a display name with one of them.\<close>

definition demo_ship :: "string \<Rightarrow> string \<Rightarrow> string \<Rightarrow> string \<Rightarrow> pyval option \<Rightarrow> module" where
  "demo_ship n dn fac sty own =
     \<lparr>name = n, display_name = dn, faction = fac, ship_type = sty, is_capital_ship = None,
      owned_status = own, blueprint_owned = None, ownership_var = None, invented_var = None,
      me_var = None, te_var = None\<rparr>"

definition demo_heap :: heap where
  "demo_heap r =
     (if r = 0 then demo_ship ''rifter'' ''Rifter'' ''Minmatar'' ''Frigate'' (Some (PBool True))
      else if r = 1 then demo_ship ''merlin'' ''Merlin'' ''Caldari'' ''Frigate'' (Some (PBool True))
      else if r = 2 then demo_ship ''kestrel'' ''Kestrel'' ''Caldari'' ''Frigate'' (Some (PStr ''Owned''))
      else if r = 3 then demo_ship ''condor'' ''Condor'' ''Caldari'' ''Frigate'' (Some (PBool False))
      else if r = 4 then demo_ship ''moa'' ''Moa'' ''Caldari'' ''Cruiser'' (Some (PStr ''unowned''))
      else (demo_ship ''chimera'' ''Moa'' ''Caldari'' ''Carrier'' (Some (PBool False)))
             \<lparr>is_capital_ship := Some True\<rparr>)"

definition demo_registry :: registry where
  "demo_registry =
     register_capital_ship demo_heap 5
       (register_ship demo_heap 4 (register_ship demo_heap 3 (register_ship demo_heap 2
          (register_ship demo_heap 1 (register_ship demo_heap 0 new_registry)))))"

definition empty_manager :: manager where
  "empty_manager = \<lparr>discovered_modules = [], blueprint_config = Map.empty,
     module_registry = new_registry, objects = demo_heap\<rparr>"

text \<open>A module as the grid leaves it, with its Tk variables; a flush that succeeds; a
  component and a capital component with texts above the ranges.\<close>

definition grid_module ::
  "string \<Rightarrow> string option \<Rightarrow> string option \<Rightarrow> string option \<Rightarrow> module" where
  "grid_module n own me_text te_text =
     \<lparr>name = n, display_name = n, faction = [], ship_type = [], is_capital_ship = None,
      owned_status = Some (PBool False), blueprint_owned = None, ownership_var = own,
      invented_var = None, me_var = me_text, te_var = te_text\<rparr>"

definition flush_ok :: "overlay \<Rightarrow> bool" where
  "flush_ok cfg = True"

definition bulk_demo :: manager where
  "bulk_demo =
     \<lparr>discovered_modules =
        [(''components'', [(''armor plates'', 0)]),
         (''capital_components'', [(''capital armor plates'', 1)])],
      blueprint_config = Map.empty,
      module_registry = new_registry,
      objects = (\<lambda>r. if r = 0 then grid_module ''armor plates'' (Some ''owned'') (Some ''15'') (Some ''25'')
                     else grid_module ''capital armor plates'' (Some ''owned'') (Some ''15'') (Some ''25''))\<rparr>"

text \<open>One discovered ship, unowned, and an empty overlay.\<close>

definition fresh_manager :: manager where
  "fresh_manager =
     \<lparr>discovered_modules = [(''ships'', [(''rifter'', 0)])],
      blueprint_config = Map.empty,
      module_registry = new_registry,
      objects = (\<lambda>r. (grid_module ''rifter'' (Some ''unowned'') (Some ''0'') (Some ''0''))
                       \<lparr>faction := ''Minmatar'', ship_type := ''Frigate''\<rparr>)\<rparr>"

text \<open>The state a bulk save leaves behind, and the round trip of one ship: it is
  registered, its ownership is edited to owned, and the overlay is reconciled.\<close>

definition saved_manager :: manager where
  "saved_manager = snd (update_all_ownership_values flush_ok fresh_manager)"

definition round_trip :: "bool \<Rightarrow> manager \<Rightarrow> manager" where
  "round_trip initial_load s =
     refresh_registry_if_needed initial_load
       (update_ship_ownership ''rifter'' 0 ''owned''
          (s\<lparr>module_registry := register_ship (objects s) 0 (module_registry s)\<rparr>))"

text \<open>Ships of which the one at reference 1 has a superscript two as ME text.\<close>

definition swallow_heap :: heap where
  "swallow_heap r =
     (if r = 1 then grid_module ''slasher'' (Some ''owned'') (Some [CHR 0xB2]) (Some ''0'')
      else grid_module ''other'' (Some ''owned'') (Some ''3'') (Some ''4''))"

definition swallow_manager :: manager where
  "swallow_manager =
     \<lparr>discovered_modules = [(''ships'', [(''rifter'', 0), (''slasher'', 1), (''breacher'', 2)])],
      blueprint_config = Map.empty,
      module_registry = new_registry,
      objects = swallow_heap\<rparr>"

text \<open>A capital component whose record holds ME 7 and TE 12, with a text in its ME entry
  that is not a number.\<close>

definition capital_edit_demo :: manager where
  "capital_edit_demo =
     \<lparr>discovered_modules = [(''capital_components'', [(''capital armor plates'', 0)])],
      blueprint_config =
        set_record Map.empty ''component_blueprints'' ''capital armor plates''
          \<lparr>owned = True, invented = False, me = 7, te = 12\<rparr>,
      module_registry = new_registry\<lparr>capital_components := [(''capital armor plates'', 0)]\<rparr>,
      objects = (\<lambda>r. grid_module ''capital armor plates'' (Some ''owned'') (Some ''abc'') (Some ''12''))\<rparr>"

text \<open>A registered capital component that the overlay holds as owned while its
  \<open>owned_status\<close> is still false, as when the window opens on a stored overlay; and a
  registered ship object that has \<open>blueprint_owned\<close> and no \<open>owned_status\<close>.\<close>

definition capital_reconcile_demo :: manager where
  "capital_reconcile_demo =
     \<lparr>discovered_modules = [(''capital_components'', [(''capital armor plates'', 0)])],
      blueprint_config =
        set_record Map.empty ''component_blueprints'' ''capital armor plates''
          \<lparr>owned = True, invented = False, me = 0, te = 0\<rparr>,
      module_registry = new_registry\<lparr>capital_components := [(''capital armor plates'', 0)]\<rparr>,
      objects = (\<lambda>r. grid_module ''capital armor plates'' (Some ''owned'') (Some ''0'') (Some ''0''))\<rparr>"

definition legacy_reconcile_demo :: manager where
  "legacy_reconcile_demo =
     \<lparr>discovered_modules = [(''ships'', [(''old hull'', 0)])],
      blueprint_config =
        set_record Map.empty ''ship_blueprints'' ''old hull''
          \<lparr>owned = True, invented = False, me = 0, te = 0\<rparr>,
      module_registry = new_registry\<lparr>ships := [(''old hull'', 0)]\<rparr>,
      objects = (\<lambda>r. (grid_module ''old hull'' None None None)
                       \<lparr>owned_status := None, blueprint_owned := Some False\<rparr>)\<rparr>"

text \<open>A component with \<open>owned_status\<close> and a legacy object with \<open>blueprint_owned\<close> only,
  both owned in the overlay.\<close>

definition reconcile_heap :: heap where
  "reconcile_heap r =
     (if r = 0 then grid_module ''armor plates'' (Some ''unowned'') None None
      else (grid_module ''legacy part'' None None None)
             \<lparr>owned_status := None, blueprint_owned := Some False\<rparr>)"

definition reconcile_dm :: "(string \<times> (string \<times> ref) list) list" where
  "reconcile_dm = [(''components'', [(''armor plates'', 0), (''legacy part'', 2)])]"

definition reconcile_cfg :: overlay where
  "reconcile_cfg =
     set_record
       (set_record Map.empty ''components'' ''armor plates''
          \<lparr>owned = True, invented = False, me = 3, te = 4\<rparr>)
       ''components'' ''legacy part'' \<lparr>owned = True, invented = False, me = 0, te = 0\<rparr>"

text \<open>An overlay with an owned registered ship, an owned hull that is not registered and
  an owned component.\<close>

definition reset_demo :: manager where
  "reset_demo =
     \<lparr>discovered_modules = [],
      blueprint_config =
        set_record
          (set_record
             (set_record Map.empty ''ship_blueprints'' ''rifter''
                \<lparr>owned = True, invented = False, me = 7, te = 12\<rparr>)
             ''ship_blueprints'' ''retired hull''
             \<lparr>owned = True, invented = False, me = 2, te = 4\<rparr>)
          ''components'' ''armor plates'' \<lparr>owned = True, invented = False, me = 10, te = 20\<rparr>,
      module_registry = register_ship demo_heap 0 new_registry,
      objects = demo_heap\<rparr>"

text \<open>States for the repeated bulk save: a ship that has been marked as owned in the
  grid, which has written its record under \<open>ship_blueprints\<close>, and whose ME text is a
  superscript two; and a state with a negative and two non-integer texts.\<close>

definition superscript_manager :: manager where
  "superscript_manager =
     \<lparr>discovered_modules = [(''ships'', [(''rifter'', 0)])],
      blueprint_config =
        set_record Map.empty ''ship_blueprints'' ''rifter''
          \<lparr>owned = True, invented = False, me = 0, te = 0\<rparr>,
      module_registry = new_registry\<lparr>ships := [(''rifter'', 0)]\<rparr>,
      objects = (\<lambda>r. grid_module ''rifter'' (Some ''owned'') (Some [CHR 0xB2]) (Some ''0''))\<rparr>"

definition mixed_manager :: manager where
  "mixed_manager =
     \<lparr>discovered_modules =
        [(''ships'', [(''rifter'', 0)]),
         (''capital_components'', [(''capital armor plates'', 2)])],
      blueprint_config =
        set_record Map.empty ''ships'' ''rifter''
          \<lparr>owned = False, invented = True, me = 4, te = 6\<rparr>,
      module_registry = new_registry,
      objects = (\<lambda>r. if r = 0 then grid_module ''rifter'' (Some ''owned'') (Some ''-3'') (Some ''abc'')
                     else grid_module ''capital armor plates'' (Some ''unowned'') (Some ''x'') (Some ''12''))\<rparr>"

section \<open>The model of \<open>int\<close>\<close>

lemmas py_int_eval = py_int_def int_strip_def int_space_def parse_body_def is_decimal_def
  decimal_value_def digit_count_def int_max_str_digits_def Let_def

text \<open>Texts that \<open>int\<close> accepts and texts that it rejects, among them a digit next to
  the separator U+001F and a literal of 4301 digits.\<close>

lemma py_int_accepts:
  "py_int ''  12 '' = Some 12" "py_int [CHR 0x85, CHR ''5'', CHR 0xA0] = Some 5"
  "py_int ''1_000'' = Some 1000" "py_int ''+5'' = Some 5" "py_int ''-0'' = Some 0"
  by (simp_all add: py_int_eval)

lemma py_int_rejects:
  "py_int [CHR 0x1F, CHR ''5''] = None" "py_int [CHR ''5'', CHR 0x1F] = None"
  "py_int ''- 5'' = None" "py_int ''1__0'' = None" "py_int ''1_'' = None" "py_int [] = None"
  "py_int [CHR 0xB2] = None"
  by (simp_all add: py_int_eval)

lemma py_int_digit_limit: "py_int (replicate 4301 (CHR ''1'')) = None"
proof -
  have "int_strip (replicate 4301 (CHR ''1'')) = replicate 4301 (CHR ''1'')"
    by (simp add: int_strip_def int_space_def dropWhile_replicate)
  moreover have "digit_count (replicate 4301 (CHR ''1'')) = 4301"
    by (simp add: digit_count_def is_decimal_def)
  moreover have "replicate 4301 (CHR ''1'') = CHR ''1'' # replicate 4300 (CHR ''1'')"
    by (simp add: replicate_Suc [symmetric] del: replicate_Suc)
  ultimately show ?thesis
    by (simp add: py_int_def int_max_str_digits_def Let_def del: replicate_Suc)
qed

section \<open>Category-key resolution\<close>

lemma map_of_category_mapping_None:
  "l \<notin> {''Ships'', ''Capital Ships'', ''Components'', ''Capital Components''} \<Longrightarrow>
   map_of category_mapping l = None"
  by (simp add: category_mapping_def)

text \<open>
  C4: the four labels of the table resolve to their category keys, every other label
  resolves to its lower-cased text, and a ship object resolves to
  \<open>capital_ship_blueprints\<close> when its \<open>is_capital_ship\<close> flag is set and to
  \<open>ship_blueprints\<close> otherwise.
\<close>

theorem category_resolution:
  "get_category_from_module_type ''Ships'' = ''ship_blueprints'' \<and>
   get_category_from_module_type ''Capital Ships'' = ''capital_ship_blueprints'' \<and>
   get_category_from_module_type ''Components'' = ''components'' \<and>
   get_category_from_module_type ''Capital Components'' = ''component_blueprints'' \<and>
   (\<forall>l. l \<notin> {''Ships'', ''Capital Ships'', ''Components'', ''Capital Components''} \<longrightarrow>
        get_category_from_module_type l = py_lower l) \<and>
   (\<forall>m. ship_category m =
        (if is_capital_ship m = Some True then ''capital_ship_blueprints''
         else ''ship_blueprints''))"
proof -
  have fixed: "get_category_from_module_type ''Ships'' = ''ship_blueprints''"
    "get_category_from_module_type ''Capital Ships'' = ''capital_ship_blueprints''"
    "get_category_from_module_type ''Components'' = ''components''"
    "get_category_from_module_type ''Capital Components'' = ''component_blueprints''"
    by (simp_all add: get_category_from_module_type_def category_mapping_def)
  have other: "\<forall>l. l \<notin> {''Ships'', ''Capital Ships'', ''Components'', ''Capital Components''} \<longrightarrow>
        get_category_from_module_type l = py_lower l"
    by (simp add: get_category_from_module_type_def map_of_category_mapping_None)
  have ship: "\<forall>m. ship_category m =
        (if is_capital_ship m = Some True then ''capital_ship_blueprints''
         else ''ship_blueprints'')"
    by (auto simp: ship_category_def split: option.splits)
  from fixed other ship show ?thesis by simp
qed

theorem category_resolution_witness:
  "get_category_from_module_type ''PI Materials'' = ''pi materials'' \<and>
   get_category_from_module_type ''capital_components'' = ''capital_components''"
proof -
  have a: "''PI Materials'' \<notin> {''Ships'', ''Capital Ships'', ''Components'', ''Capital Components''}"
    by simp
  have b: "''capital_components'' \<notin> {''Ships'', ''Capital Ships'', ''Components'', ''Capital Components''}"
    by simp
  from category_resolution a
  have "get_category_from_module_type ''PI Materials'' = py_lower ''PI Materials''"
    by simp
  moreover from category_resolution b
  have "get_category_from_module_type ''capital_components'' = py_lower ''capital_components''"
    by simp
  ultimately have "get_category_from_module_type ''PI Materials'' = py_lower ''PI Materials''"
    and "get_category_from_module_type ''capital_components'' = py_lower ''capital_components''"
    by simp_all
  then show ?thesis by (simp add: py_lower_def py_lower_char_def)
qed

section \<open>Single edits\<close>

lemma record_at_set_record:
  "record_at (set_record cfg c n r) c' n' =
     (if c' = c \<and> n' = n then Some r else record_at cfg c' n')"
  by (simp add: record_at_def set_record_def entries_of_def split: option.splits)

lemma blueprint_config_refresh [simp]:
  "blueprint_config (refresh_registry_if_needed b s) = blueprint_config s"
  by (simp add: refresh_registry_if_needed_def Let_def)

lemma me_update_blueprint_me:
  "map_option me (record_at (update_blueprint_me cfg c n v) c n) = Some v"
  by (simp add: update_blueprint_me_def record_at_set_record split: option.splits)

lemma te_update_blueprint_te:
  "map_option te (record_at (update_blueprint_te cfg c n v) c n) = Some v"
  by (simp add: update_blueprint_te_def record_at_set_record split: option.splits)

text \<open>
  The handlers of the ships and components grids: a single ME edit through \<open>validate_me\<close>
  stores \<open>clamp(v, 0, 10)\<close> when the text is the integer \<open>v\<close> and 0 when the text is not
  an integer; a single TE edit through \<open>validate_te\<close> stores \<open>clamp(v, 0, 20)\<close>,
  respectively 0; for every category, entity name and prior state.
\<close>

lemma single_edit_stores_clamped:
  "map_option me (record_at (blueprint_config (validate_me v category module_name s))
       category module_name) =
     Some (case py_int v of Some n \<Rightarrow> clamp n 0 10 | None \<Rightarrow> 0) \<and>
   map_option te (record_at (blueprint_config (validate_te v category module_name s))
       category module_name) =
     Some (case py_int v of Some n \<Rightarrow> clamp n 0 20 | None \<Rightarrow> 0)"
proof (cases "py_int v")
  case None
  then show ?thesis
    by (simp add: validate_me_def validate_te_def me_update_blueprint_me te_update_blueprint_te)
next
  case (Some n)
  have "(if n < 0 then 0 else if n > 10 then 10 else n) = clamp n 0 10"
    and "(if n < 0 then 0 else if n > 20 then 20 else n) = clamp n 0 20"
    by (simp_all add: clamp_def)
  with Some show ?thesis
    by (simp add: validate_me_def validate_te_def Let_def me_update_blueprint_me
        te_update_blueprint_te)
qed


lemma single_edit_stores_clamped_example:
  "map_option me (record_at (blueprint_config (validate_me ''15'' ''ship_blueprints'' ''rifter''
       empty_manager)) ''ship_blueprints'' ''rifter'') = Some 10 \<and>
   map_option te (record_at (blueprint_config (validate_te ''-4'' ''components'' ''armor plates''
       empty_manager)) ''components'' ''armor plates'') = Some 0 \<and>
   map_option te (record_at (blueprint_config (validate_te ''25'' ''components'' ''armor plates''
       empty_manager)) ''components'' ''armor plates'') = Some 20 \<and>
   map_option me (record_at (blueprint_config (validate_me ''ten'' ''ship_blueprints'' ''rifter''
       empty_manager)) ''ship_blueprints'' ''rifter'') = Some 0"
proof -
  have a: "py_int ''15'' = Some 15" and b: "py_int ''-4'' = Some (- 4)"
    and c: "py_int ''25'' = Some 25" and d: "py_int ''ten'' = None"
    by (simp_all add: py_int_eval)
  show ?thesis
    using single_edit_stores_clamped [of "''15''" "''ship_blueprints''" "''rifter''" empty_manager]
      single_edit_stores_clamped [of "''-4''" "''components''" "''armor plates''" empty_manager]
      single_edit_stores_clamped [of "''25''" "''components''" "''armor plates''" empty_manager]
      single_edit_stores_clamped [of "''ten''" "''ship_blueprints''" "''rifter''" empty_manager]
    by (simp add: a b c d clamp_def)
qed

text \<open>The handlers of the capital components grid store the clamped value of a text that
  is an integer, and leave the state as it is on any other text.\<close>

lemma capital_component_edit_stores_clamped:
  assumes "py_int v = Some n"
  shows "map_option me (record_at
           (blueprint_config (validate_capital_component_me v comp_name s))
           ''component_blueprints'' comp_name) = Some (clamp n 0 10) \<and>
         map_option te (record_at
           (blueprint_config (validate_capital_component_te v comp_name s))
           ''component_blueprints'' comp_name) = Some (clamp n 0 20)"
proof -
  have "(if n < 0 then 0 else if n > 10 then 10 else n) = clamp n 0 10"
    and "(if n < 0 then 0 else if n > 20 then 20 else n) = clamp n 0 20"
    by (simp_all add: clamp_def)
  with assms show ?thesis
    by (simp add: validate_capital_component_me_def validate_capital_component_te_def Let_def
        me_update_blueprint_me te_update_blueprint_te)
qed

lemma capital_component_edit_rejected:
  "py_int v = None \<Longrightarrow>
   validate_capital_component_me v comp_name s = s \<and>
   validate_capital_component_te v comp_name s = s"
  by (simp add: validate_capital_component_me_def validate_capital_component_te_def)

text \<open>
  C1: a capital component whose record holds ME 7 and TE 12. When the text \<open>abc\<close> is
  committed in its ME entry, \<open>validate_capital_component_me\<close> leaves the stored ME at 7,
  and \<open>validate_capital_component_te\<close> likewise leaves the stored TE at 12: the stored
  value is not 0. On the same text \<open>validate_me\<close> and \<open>validate_te\<close> store 0.
\<close>

theorem capital_component_edit_keeps_stored_value:
  "record_at (blueprint_config (validate_capital_component_me ''abc'' ''capital armor plates''
       capital_edit_demo)) ''component_blueprints'' ''capital armor plates'' =
     Some \<lparr>owned = True, invented = False, me = 7, te = 12\<rparr> \<and>
   record_at (blueprint_config (validate_capital_component_te ''abc'' ''capital armor plates''
       capital_edit_demo)) ''component_blueprints'' ''capital armor plates'' =
     Some \<lparr>owned = True, invented = False, me = 7, te = 12\<rparr> \<and>
   record_at (blueprint_config (validate_me ''abc'' ''component_blueprints''
       ''capital armor plates'' capital_edit_demo)) ''component_blueprints''
       ''capital armor plates'' =
     Some \<lparr>owned = True, invented = False, me = 0, te = 12\<rparr> \<and>
   record_at (blueprint_config (validate_te ''abc'' ''component_blueprints''
       ''capital armor plates'' capital_edit_demo)) ''component_blueprints''
       ''capital armor plates'' =
     Some \<lparr>owned = True, invented = False, me = 7, te = 0\<rparr>"
proof -
  have a: "py_int ''abc'' = None" by (simp add: py_int_eval)
  show ?thesis
    by (simp add: validate_capital_component_me_def validate_capital_component_te_def
        validate_me_def validate_te_def a capital_edit_demo_def record_at_set_record
        update_blueprint_me_def update_blueprint_te_def)
qed



section \<open>Registry queries\<close>

lemma comprehension_no_raise:
  "\<forall>x\<in>set xs. p x = Inr (q x) \<Longrightarrow> comprehension p xs = Inr (filter q xs)"
  by (induction xs) simp_all

lemma ship_filter_cond_matches:
  "owned_status m \<noteq> None \<Longrightarrow>
   ship_filter_cond fac sty owned_only m = Inr (matches_filter fac sty owned_only m)"
  by (cases "owned_status m"; cases fac; cases sty)
     (auto simp: ship_filter_cond_def matches_filter_def owned_truthy_def falsy_def
        filter_absent_def ownership_holds_def split: pyval.splits)

text \<open>
  C5: when every registered ship carries the \<open>owned_status\<close> attribute (as a boolean, a
  string or \<open>None\<close>), \<open>get_ships_by_filter\<close> raises nothing and returns exactly the
  registered ships, in registration order, whose faction matches or whose faction filter
  is absent (\<open>None\<close> or empty) or \<open>"All"\<close>, likewise for the ship type, and whose
  ownership, when \<open>owned_only\<close> is set, is the boolean true or a string equal to
  \<open>"owned"\<close> up to case.
\<close>

theorem ships_by_filter:
  assumes "\<forall>ship\<in>set (map snd (ships reg)). owned_status (h ship) \<noteq> None"
  shows "get_ships_by_filter reg h fac sty owned_only =
         Inr (filter (\<lambda>ship. matches_filter fac sty owned_only (h ship)) (map snd (ships reg)))"
  unfolding get_ships_by_filter_def
  by (rule comprehension_no_raise) (use assms ship_filter_cond_matches in blast)

lemma demo_ships: "map snd (ships demo_registry) = [0, 1, 2, 3, 4]"
  by (simp add: demo_registry_def register_ship_def register_capital_ship_def
      new_registry_def demo_heap_def demo_ship_def Let_def)

theorem ships_by_filter_witness:
  "get_ships_by_filter demo_registry demo_heap (Some ''Caldari'') (Some ''All'') True = Inr [1, 2]"
proof -
  have "\<forall>ship\<in>set (map snd (ships demo_registry)). owned_status (demo_heap ship) \<noteq> None"
    by (simp add: demo_ships demo_heap_def demo_ship_def)
  then have "get_ships_by_filter demo_registry demo_heap (Some ''Caldari'') (Some ''All'') True =
      Inr (filter (\<lambda>ship. matches_filter (Some ''Caldari'') (Some ''All'') True (demo_heap ship))
             (map snd (ships demo_registry)))"
    by (rule ships_by_filter)
  also have "filter (\<lambda>ship. matches_filter (Some ''Caldari'') (Some ''All'') True (demo_heap ship))
             (map snd (ships demo_registry)) = [1, 2]"
    by (simp add: demo_ships matches_filter_def filter_absent_def ownership_holds_def
        demo_heap_def demo_ship_def py_lower_def py_lower_char_def)
  finally show ?thesis .
qed


text \<open>
  C10: the combined lookup returns a registered regular ship with the display name
  whenever one exists; without one it is the capital-ship lookup, whose result is a
  registered capital ship with that display name; and a result that is not a regular ship
  is a matching capital ship returned when no regular ship has the display name.
\<close>

theorem display_name_combined:
  "((\<exists>s\<in>set (map snd (ships reg)). display_name (h s) = dn) \<longrightarrow>
      (\<exists>s\<in>set (map snd (ships reg)).
          get_ship_by_display_name_combined reg h dn = Some s \<and> display_name (h s) = dn)) \<and>
   ((\<forall>s\<in>set (map snd (ships reg)). display_name (h s) \<noteq> dn) \<longrightarrow>
      get_ship_by_display_name_combined reg h dn = get_capital_ship_by_display_name reg h dn) \<and>
   (\<forall>c. get_capital_ship_by_display_name reg h dn = Some c \<longrightarrow>
      c \<in> set (map snd (capital_ships reg)) \<and> display_name (h c) = dn) \<and>
   (\<forall>c. get_ship_by_display_name_combined reg h dn = Some c \<and>
        c \<notin> set (map snd (ships reg)) \<longrightarrow>
      c \<in> set (map snd (capital_ships reg)) \<and> display_name (h c) = dn \<and>
      (\<forall>s\<in>set (map snd (ships reg)). display_name (h s) \<noteq> dn))"
  unfolding get_ship_by_display_name_combined_def get_ship_by_display_name_def
    get_capital_ship_by_display_name_def
  by (auto simp: find_None_iff find_Some_iff split: option.splits)


theorem display_name_combined_witness:
  "get_ship_by_display_name_combined demo_registry demo_heap ''Moa'' = Some 4"
proof -
  define shown where "shown s \<longleftrightarrow> display_name (demo_heap s) = ''Moa''" for s
  have ships: "map snd (ships demo_registry) = [0, 1, 2, 3, 4]"
    by (simp add: demo_registry_def register_ship_def register_capital_ship_def
        new_registry_def demo_heap_def demo_ship_def Let_def)
  have no: "\<not> shown 0" "\<not> shown 1" "\<not> shown 2" "\<not> shown 3" and yes: "shown 4"
    by (simp_all add: shown_def demo_heap_def demo_ship_def)
  have "4 \<in> set (map snd (ships demo_registry))"
    unfolding ships by simp
  with yes have "\<exists>s\<in>set (map snd (ships demo_registry)). display_name (demo_heap s) = ''Moa''"
    unfolding shown_def by (rule bexI)
  then have "\<exists>s\<in>set (map snd (ships demo_registry)).
      get_ship_by_display_name_combined demo_registry demo_heap ''Moa'' = Some s \<and>
      display_name (demo_heap s) = ''Moa''"
    by (rule display_name_combined [of demo_registry demo_heap "''Moa''", THEN conjunct1, THEN mp])
  then obtain s where "s \<in> {0, 1, 2, 3, 4}"
    and r: "get_ship_by_display_name_combined demo_registry demo_heap ''Moa'' = Some s"
    and "shown s"
    unfolding ships shown_def by auto
  with no have "s = 4" by auto
  with r show ?thesis by simp
qed

section \<open>Bulk save\<close>

lemma record_at_empty [simp]: "record_at Map.empty c n = None"
  by (simp add: record_at_def)

lemma category_fallbacks:
  "get_category_from_module_type ''ships'' = ''ships''"
  "get_category_from_module_type ''components'' = ''components''"
  "get_category_from_module_type ''capital_components'' = ''capital_components''"
  by (simp_all add: get_category_from_module_type_def category_mapping_def py_lower_def
      py_lower_char_def)

text \<open>
  C2: at a bulk save of a component and a capital component whose ME text is 15 and whose
  TE text is 25, the records written hold \<open>me = 15\<close> and \<open>te = 25\<close>: the values are not
  clamped to 10 and 20.
\<close>

theorem bulk_save_keeps_out_of_range:
  "record_at (blueprint_config (snd (update_all_ownership_values flush_ok bulk_demo)))
     ''component_blueprints'' ''capital armor plates'' =
     Some \<lparr>owned = True, invented = False, me = 15, te = 25\<rparr> \<and>
   record_at (blueprint_config (snd (update_all_ownership_values flush_ok bulk_demo)))
     ''components'' ''armor plates'' =
     Some \<lparr>owned = True, invented = False, me = 15, te = 25\<rparr>"
proof -
  have a: "py_int ''15'' = Some 15" and b: "py_int ''25'' = Some 25"
    by (simp_all add: py_int_eval)
  have c: "py_isdigit ''15''" "py_isdigit ''25''"
    by (simp_all add: py_isdigit_def py_isdigit_char_def is_decimal_def)
  show ?thesis
    by (simp add: update_all_ownership_values_def bulk_loops_def bulk_demo_def grid_module_def
        category_fallbacks save_capital_component_ownership_def save_ownership_def
        read_digits_def a b c record_at_set_record update_blueprint_me_def
        update_blueprint_te_def Let_def)
qed


lemma read_digits_cases: "read_digits v = Inl ValueError \<or> (\<exists>n. read_digits v = Inr n)"
  by (simp add: read_digits_def split: option.splits)

lemma save_ownership_raises:
  "raises_in_ownership_step m \<Longrightarrow> save_ownership category module_name m cfg = Inl ValueError"
  using read_digits_cases [of "me_var m"]
  by (auto simp: raises_in_ownership_step_def save_ownership_def Let_def)



section \<open>Round trip\<close>

lemma set_record_twice:
  "set_record (set_record cfg c n r) c n r' = set_record cfg c n r'"
  by (simp add: set_record_def entries_of_def)

lemma saved_manager_eq:
  "saved_manager = fresh_manager
     \<lparr>blueprint_config :=
        set_record Map.empty ''ships'' ''rifter''
          \<lparr>owned = False, invented = False, me = 0, te = 0\<rparr>\<rparr>"
proof -
  have a: "py_int ''0'' = Some 0" by (simp add: py_int_eval)
  have c: "py_isdigit ''0''"
    by (simp add: py_isdigit_def py_isdigit_char_def is_decimal_def)
  show ?thesis
    by (simp add: saved_manager_def update_all_ownership_values_def bulk_loops_def
        fresh_manager_def grid_module_def category_fallbacks save_ownership_def
        read_digits_def a c record_at_set_record set_record_twice update_blueprint_me_def
        update_blueprint_te_def Let_def)
qed

text \<open>
  C8: after a bulk save has written the unowned ship under the category key \<open>ships\<close>,
  registering the ship, editing its ownership to owned (which writes the record under
  \<open>ship_blueprints\<close>) and reconciling leaves \<open>owned_status\<close> false: the reconciliation
  loop over the discovered modules reads the record under \<open>ships\<close>.
\<close>

theorem round_trip_after_bulk_save:
  "record_at (blueprint_config saved_manager) ''ships'' ''rifter'' =
     Some \<lparr>owned = False, invented = False, me = 0, te = 0\<rparr> \<and>
   record_at (blueprint_config (round_trip True saved_manager)) ''ship_blueprints'' ''rifter'' =
     Some \<lparr>owned = True, invented = False, me = 0, te = 0\<rparr> \<and>
   owned_status (objects (round_trip True saved_manager) 0) = Some (PBool False) \<and>
   owned_status (objects (round_trip False saved_manager) 0) = Some (PBool False)"
  by (simp add: saved_manager_eq round_trip_def fresh_manager_def grid_module_def
      register_ship_def new_registry_def update_ship_ownership_def ship_category_def
      update_blueprint_ownership_def refresh_registry_if_needed_def category_fallbacks
      record_at_set_record default_blueprint_def set_owned_attr_def sync_ownership_var_def
      Let_def)


section \<open>Reconciliation\<close>

lemma refresh_module_other:
  "module' \<noteq> module \<Longrightarrow> refresh_module cfg il c (n, module') h module = h module"
  by (simp split: option.splits)

lemma fold_refresh_module_other:
  "module \<notin> snd ` set ms \<Longrightarrow> fold (refresh_module cfg il c) ms h module = h module"
proof (induction ms arbitrary: h)
  case Nil
  then show ?case by simp
next
  case (Cons x ms)
  obtain n m where x: "x = (n, m)" by (cases x)
  with Cons.prems have "m \<noteq> module" and "module \<notin> snd ` set ms" by auto
  then show ?case
    using Cons.IH [of "refresh_module cfg il c (n, m) h"] x
    by (simp add: refresh_module_other del: refresh_module.simps)
qed

lemma fold_refresh_module_hit:
  assumes "distinct (map snd ms)" and "(n, module) \<in> set ms"
    and "record_at cfg c n = Some r"
  shows "fold (refresh_module cfg il c) ms h module =
         sync_ownership_var il (owned r) (set_owned_attr (owned r) (h module))"
  using assms(1,2)
proof (induction ms arbitrary: h)
  case Nil
  then show ?case by simp
next
  case (Cons x ms)
  obtain n' m' where x: "x = (n', m')" by (cases x)
  show ?case
  proof (cases "(n, module) = x")
    case True
    with Cons.prems have "module \<notin> snd ` set ms" by force
    then have "fold (refresh_module cfg il c) ms (refresh_module cfg il c x h) module =
               refresh_module cfg il c x h module"
      by (rule fold_refresh_module_other)
    with True assms(3) show ?thesis by auto
  next
    case False
    with Cons.prems x have mem: "(n, module) \<in> set ms" and d: "distinct (map snd ms)"
      and ne: "m' \<noteq> module"
      by (auto simp: image_iff)
    from Cons.IH [OF d mem, of "refresh_module cfg il c x h"] ne x show ?thesis
      by (simp add: refresh_module_other del: refresh_module.simps)
  qed
qed

lemma fold_refresh_modules_other:
  "module \<notin> snd ` set (concat (map snd dm)) \<Longrightarrow>
   fold (refresh_modules cfg il) dm h module = h module"
proof (induction dm arbitrary: h)
  case Nil
  then show ?case by simp
next
  case (Cons x dm)
  obtain cn ms where x: "x = (cn, ms)" by (cases x)
  with Cons.prems have a: "module \<notin> snd ` set ms"
    and b: "module \<notin> snd ` set (concat (map snd dm))" by auto
  from Cons.IH [OF b] x a show ?case
    by (simp add: fold_refresh_module_other)
qed

lemma fold_refresh_modules_hit:
  assumes "distinct (map snd (concat (map snd dm)))"
    and "(cn, ms) \<in> set dm" and "(n, module) \<in> set ms"
    and "record_at cfg (get_category_from_module_type cn) n = Some r"
  shows "fold (refresh_modules cfg il) dm h module =
         sync_ownership_var il (owned r) (set_owned_attr (owned r) (h module))"
  using assms(1,2)
proof (induction dm arbitrary: h)
  case Nil
  then show ?case by simp
next
  case (Cons x dm)
  obtain cn' ms' where x: "x = (cn', ms')" by (cases x)
  from Cons.prems(1) x have d1: "distinct (map snd ms')"
    and d2: "distinct (map snd (concat (map snd dm)))"
    and disj: "snd ` set ms' \<inter> snd ` set (concat (map snd dm)) = {}"
    by (auto simp: image_iff)
  show ?case
  proof (cases "(cn, ms) = x")
    case True
    with x have eq: "cn' = cn" "ms' = ms" by auto
    from assms(3) eq disj have "module \<notin> snd ` set (concat (map snd dm))"
      by (force simp: image_iff)
    then have "fold (refresh_modules cfg il) dm (refresh_modules cfg il x h) module =
               refresh_modules cfg il x h module"
      by (rule fold_refresh_modules_other)
    moreover have "refresh_modules cfg il x h module =
         sync_ownership_var il (owned r) (set_owned_attr (owned r) (h module))"
      using fold_refresh_module_hit [OF _ assms(3,4)] d1 eq x by simp
    ultimately show ?thesis by simp
  next
    case False
    with Cons.prems(2) have mem: "(cn, ms) \<in> set dm" by auto
    with assms(3) have "module \<in> snd ` set (concat (map snd dm))"
      by (force simp: image_iff)
    with disj have "module \<notin> snd ` set ms'" by auto
    then have "refresh_modules cfg il x h module = h module"
      using x by (simp add: fold_refresh_module_other)
    with Cons.IH [OF d2 mem, of "refresh_modules cfg il x h"] show ?thesis by simp
  qed
qed

lemma set_owned_attr_fields:
  "owned_status (set_owned_attr b m) =
     (if owned_status m \<noteq> None then Some (PBool b) else None)"
  "blueprint_owned (set_owned_attr b m) =
     (if owned_status m = None \<and> blueprint_owned m \<noteq> None then Some b else blueprint_owned m)"
  by (auto simp: set_owned_attr_def)

lemma sync_ownership_var_fields [simp]:
  "owned_status (sync_ownership_var il b m) = owned_status m"
  "blueprint_owned (sync_ownership_var il b m) = blueprint_owned m"
  by (simp_all add: sync_ownership_var_def Let_def)

text \<open>
  In the reconciliation loop over the discovered modules, where each module object is
  listed once, a module whose name has an overlay record under the category resolved
  from the key of its dictionary gets the
  record's \<open>owned\<close> value in \<open>owned_status\<close> when it has that attribute, with
  \<open>blueprint_owned\<close> left as it was; otherwise in \<open>blueprint_owned\<close> when it has that
  attribute, \<open>owned_status\<close> staying absent; and in neither when it has neither.
\<close>

lemma reconcile_copies_into_one_field:
  assumes "distinct (map snd (concat (map snd dm)))"
    and "(category_name, modules) \<in> set dm" and "(n, module) \<in> set modules"
    and "record_at cfg (get_category_from_module_type category_name) n = Some r"
  shows "(owned_status (h module) \<noteq> None \<longrightarrow>
            owned_status (fold (refresh_modules cfg initial_load) dm h module) = Some (PBool (owned r)) \<and>
            blueprint_owned (fold (refresh_modules cfg initial_load) dm h module) =
              blueprint_owned (h module)) \<and>
         (owned_status (h module) = None \<and> blueprint_owned (h module) \<noteq> None \<longrightarrow>
            blueprint_owned (fold (refresh_modules cfg initial_load) dm h module) = Some (owned r) \<and>
            owned_status (fold (refresh_modules cfg initial_load) dm h module) = None) \<and>
         (owned_status (h module) = None \<and> blueprint_owned (h module) = None \<longrightarrow>
            owned_status (fold (refresh_modules cfg initial_load) dm h module) = None \<and>
            blueprint_owned (fold (refresh_modules cfg initial_load) dm h module) = None)"
  unfolding fold_refresh_modules_hit [OF assms]
  by (simp add: set_owned_attr_fields)

lemma reconcile_copies_into_one_field_example:
  "owned_status (fold (refresh_modules reconcile_cfg True) reconcile_dm reconcile_heap 0) =
     Some (PBool True) \<and>
   blueprint_owned (fold (refresh_modules reconcile_cfg True) reconcile_dm reconcile_heap 0) =
     None \<and>
   blueprint_owned (fold (refresh_modules reconcile_cfg True) reconcile_dm reconcile_heap 2) =
     Some True \<and>
   owned_status (fold (refresh_modules reconcile_cfg True) reconcile_dm reconcile_heap 2) = None"
proof -
  have d: "distinct (map snd (concat (map snd reconcile_dm)))"
    by (simp add: reconcile_dm_def)
  have m: "(''components'', [(''armor plates'', 0), (''legacy part'', 2)]) \<in> set reconcile_dm"
    by (simp add: reconcile_dm_def)
  have e0: "(''armor plates'', 0) \<in> set [(''armor plates'', 0), (''legacy part'', 2::nat)]"
    and e1: "(''legacy part'', 2) \<in> set [(''armor plates'', 0::nat), (''legacy part'', 2)]"
    by simp_all
  have r0: "record_at reconcile_cfg (get_category_from_module_type ''components'') ''armor plates''
      = Some \<lparr>owned = True, invented = False, me = 3, te = 4\<rparr>"
    and r1: "record_at reconcile_cfg (get_category_from_module_type ''components'') ''legacy part''
      = Some \<lparr>owned = True, invented = False, me = 0, te = 0\<rparr>"
    by (simp_all add: reconcile_cfg_def category_fallbacks record_at_set_record)
  have h0: "owned_status (reconcile_heap 0) = Some (PBool False)"
    "blueprint_owned (reconcile_heap 0) = None"
    and h1: "owned_status (reconcile_heap 2) = None"
    "blueprint_owned (reconcile_heap 2) = Some False"
    by (simp_all add: reconcile_heap_def grid_module_def)
  from reconcile_copies_into_one_field [OF d m e0 r0, of reconcile_heap True]
    reconcile_copies_into_one_field [OF d m e1 r1, of reconcile_heap True]
  show ?thesis by (simp add: h0 h1)
qed

text \<open>On the initial load the loop over the registry's ships assigns \<open>owned_status\<close> to
  an object that had only \<open>blueprint_owned\<close>, which keeps its value.\<close>

lemma initial_load_creates_owned_status:
  "owned_status (objects legacy_reconcile_demo 0) = None \<and>
   blueprint_owned (objects legacy_reconcile_demo 0) = Some False \<and>
   owned_status (objects (refresh_registry_if_needed True legacy_reconcile_demo) 0) =
     Some (PBool True) \<and>
   blueprint_owned (objects (refresh_registry_if_needed True legacy_reconcile_demo) 0) =
     Some False"
  by (simp add: legacy_reconcile_demo_def refresh_registry_if_needed_def new_registry_def
      grid_module_def category_fallbacks record_at_set_record Let_def)

text \<open>
  C9: a registered capital component whose overlay record, under \<open>component_blueprints\<close>,
  is owned. \<open>refresh_registry_if_needed\<close> looks its name up under the category resolved
  from the dictionary key \<open>capital_components\<close>, which is that key itself, finds no
  record, and copies the overlay's value into neither field: \<open>owned_status\<close> stays
  false and \<open>blueprint_owned\<close> stays absent, on the initial load and on a later
  refresh.
\<close>

theorem reconcile_skips_capital_component:
  "get_category_from_module_type ''capital_components'' = ''capital_components'' \<and>
   record_at (blueprint_config capital_reconcile_demo) ''component_blueprints''
     ''capital armor plates'' = Some \<lparr>owned = True, invented = False, me = 0, te = 0\<rparr> \<and>
   capital_components (module_registry capital_reconcile_demo) =
     [(''capital armor plates'', 0)] \<and>
   discovered_modules capital_reconcile_demo =
     [(''capital_components'', [(''capital armor plates'', 0)])] \<and>
   owned_status (objects capital_reconcile_demo 0) = Some (PBool False) \<and>
   owned_status (objects (refresh_registry_if_needed True capital_reconcile_demo) 0) =
     Some (PBool False) \<and>
   blueprint_owned (objects (refresh_registry_if_needed True capital_reconcile_demo) 0) = None \<and>
   owned_status (objects (refresh_registry_if_needed False capital_reconcile_demo) 0) =
     Some (PBool False) \<and>
   blueprint_owned (objects (refresh_registry_if_needed False capital_reconcile_demo) 0) = None"
  by (simp add: capital_reconcile_demo_def refresh_registry_if_needed_def new_registry_def
      grid_module_def category_fallbacks record_at_set_record Let_def)


section \<open>Reset of ship ownership\<close>

lemma fst_reset_ship:
  "fst (reset_ship c (n, r') (h, cfg)) r =
     (if r = r' \<and> owned_status (h r) \<noteq> None
      then (h r)\<lparr>owned_status := Some (PBool False)\<rparr> else h r)"
  by simp

lemma reset_heap:
  "fst (fold (reset_ship c) xs (h, cfg)) r =
     (if r \<in> snd ` set xs \<and> owned_status (h r) \<noteq> None
      then (h r)\<lparr>owned_status := Some (PBool False)\<rparr> else h r)"
proof (induction xs arbitrary: h cfg)
  case Nil
  then show ?case by simp
next
  case (Cons x xs)
  obtain n r' where x: "x = (n, r')" by (cases x)
  obtain h1 cfg1 where st: "reset_ship c (n, r') (h, cfg) = (h1, cfg1)"
    by (cases "reset_ship c (n, r') (h, cfg)")
  have h1: "h1 r = (if r = r' \<and> owned_status (h r) \<noteq> None
      then (h r)\<lparr>owned_status := Some (PBool False)\<rparr> else h r)"
    using fst_reset_ship [of c n r' h cfg r] arg_cong [OF st, of fst] by (simp del: reset_ship.simps)
  have "fst (fold (reset_ship c) (x # xs) (h, cfg)) r = fst (fold (reset_ship c) xs (h1, cfg1)) r"
    using x st by simp
  also have "\<dots> = (if r \<in> snd ` set xs \<and> owned_status (h1 r) \<noteq> None
      then (h1 r)\<lparr>owned_status := Some (PBool False)\<rparr> else h1 r)"
    by (rule Cons.IH)
  also have "\<dots> = (if r \<in> snd ` set (x # xs) \<and> owned_status (h r) \<noteq> None
      then (h r)\<lparr>owned_status := Some (PBool False)\<rparr> else h r)"
    using x h1 by (auto simp: image_iff)
  finally show ?case .
qed

lemma snd_reset_ship_other:
  "c' \<noteq> c \<Longrightarrow> snd (reset_ship c (n, r') (h, cfg)) c' = cfg c'"
  by (simp add: set_record_def split: option.splits)

lemma reset_other_category:
  "c' \<noteq> c \<Longrightarrow> snd (fold (reset_ship c) xs (h, cfg)) c' = cfg c'"
proof (induction xs arbitrary: h cfg)
  case Nil
  then show ?case by simp
next
  case (Cons x xs)
  obtain n r' where x: "x = (n, r')" by (cases x)
  obtain h1 cfg1 where st: "reset_ship c (n, r') (h, cfg) = (h1, cfg1)"
    by (cases "reset_ship c (n, r') (h, cfg)")
  with snd_reset_ship_other [OF Cons.prems, of n r' h cfg] have "cfg1 c' = cfg c'"
    by (simp del: reset_ship.simps)
  with Cons.IH [OF Cons.prems, of h1 cfg1] x st show ?case by simp
qed

lemma record_at_reset_ship:
  "record_at (snd (reset_ship c (n, r') (h, cfg))) c' n' =
     (if c' = c \<and> n' = n then map_option (\<lambda>b. b\<lparr>owned := False\<rparr>) (record_at cfg c' n')
      else record_at cfg c' n')"
  by (auto simp: record_at_set_record split: option.splits)

lemma reset_records:
  "record_at (snd (fold (reset_ship c) xs (h, cfg))) c' n' =
     (if c' = c \<and> n' \<in> fst ` set xs
      then map_option (\<lambda>b. b\<lparr>owned := False\<rparr>) (record_at cfg c' n')
      else record_at cfg c' n')"
proof (induction xs arbitrary: h cfg)
  case Nil
  then show ?case by simp
next
  case (Cons x xs)
  obtain n r' where x: "x = (n, r')" by (cases x)
  obtain h1 cfg1 where st: "reset_ship c (n, r') (h, cfg) = (h1, cfg1)"
    by (cases "reset_ship c (n, r') (h, cfg)")
  have c1: "record_at cfg1 c' n' =
     (if c' = c \<and> n' = n then map_option (\<lambda>b. b\<lparr>owned := False\<rparr>) (record_at cfg c' n')
      else record_at cfg c' n')"
    using record_at_reset_ship [of c n r' h cfg c' n'] arg_cong [OF st, of snd]
    by (simp del: reset_ship.simps)
  have "record_at (snd (fold (reset_ship c) (x # xs) (h, cfg))) c' n' =
        record_at (snd (fold (reset_ship c) xs (h1, cfg1))) c' n'"
    using x st by simp
  also have "\<dots> = (if c' = c \<and> n' \<in> fst ` set xs
      then map_option (\<lambda>b. b\<lparr>owned := False\<rparr>) (record_at cfg1 c' n')
      else record_at cfg1 c' n')"
    by (rule Cons.IH)
  also have "\<dots> = (if c' = c \<and> n' \<in> fst ` set (x # xs)
      then map_option (\<lambda>b. b\<lparr>owned := False\<rparr>) (record_at cfg c' n')
      else record_at cfg c' n')"
    using x c1 by (cases "record_at cfg c' n'") (auto simp: image_iff)
  finally show ?case .
qed

lemma reset_all_heap:
  "objects (snd (reset_all_ship_ownership sv s)) r =
     (if (r \<in> snd ` set (ships (module_registry s)) \<or>
          r \<in> snd ` set (capital_ships (module_registry s))) \<and> owned_status (objects s r) \<noteq> None
      then (objects s r)\<lparr>owned_status := Some (PBool False)\<rparr> else objects s r)"
proof -
  obtain h1 cfg1 where st: "fold (reset_ship ''ship_blueprints'') (ships (module_registry s))
      (objects s, blueprint_config s) = (h1, cfg1)"
    by (cases "fold (reset_ship ''ship_blueprints'') (ships (module_registry s))
      (objects s, blueprint_config s)")
  have h1: "h1 r = (if r \<in> snd ` set (ships (module_registry s)) \<and> owned_status (objects s r) \<noteq> None
      then (objects s r)\<lparr>owned_status := Some (PBool False)\<rparr> else objects s r)"
    using reset_heap [of "''ship_blueprints''" "ships (module_registry s)" "objects s"
        "blueprint_config s" r] st by simp
  have "objects (snd (reset_all_ship_ownership sv s)) r =
        fst (fold (reset_ship ''capital_ship_blueprints'') (capital_ships (module_registry s))
          (h1, cfg1)) r"
    by (simp add: reset_all_ship_ownership_def st Let_def)
  also have "\<dots> = (if r \<in> snd ` set (capital_ships (module_registry s)) \<and> owned_status (h1 r) \<noteq> None
      then (h1 r)\<lparr>owned_status := Some (PBool False)\<rparr> else h1 r)"
    by (rule reset_heap)
  finally show ?thesis using h1 by auto
qed

lemma reset_all_records:
  "record_at (blueprint_config (snd (reset_all_ship_ownership sv s))) c n =
     (if (c = ''ship_blueprints'' \<and> n \<in> fst ` set (ships (module_registry s))) \<or>
         (c = ''capital_ship_blueprints'' \<and> n \<in> fst ` set (capital_ships (module_registry s)))
      then map_option (\<lambda>b. b\<lparr>owned := False\<rparr>) (record_at (blueprint_config s) c n)
      else record_at (blueprint_config s) c n)"
proof -
  obtain h1 cfg1 where st: "fold (reset_ship ''ship_blueprints'') (ships (module_registry s))
      (objects s, blueprint_config s) = (h1, cfg1)"
    by (cases "fold (reset_ship ''ship_blueprints'') (ships (module_registry s))
      (objects s, blueprint_config s)")
  have c1: "record_at cfg1 c n =
     (if c = ''ship_blueprints'' \<and> n \<in> fst ` set (ships (module_registry s))
      then map_option (\<lambda>b. b\<lparr>owned := False\<rparr>) (record_at (blueprint_config s) c n)
      else record_at (blueprint_config s) c n)"
    using reset_records [of "''ship_blueprints''" "ships (module_registry s)" "objects s"
        "blueprint_config s" c n] st by simp
  have "record_at (blueprint_config (snd (reset_all_ship_ownership sv s))) c n =
        record_at (snd (fold (reset_ship ''capital_ship_blueprints'')
          (capital_ships (module_registry s)) (h1, cfg1))) c n"
    by (simp add: reset_all_ship_ownership_def st Let_def)
  also have "\<dots> = (if c = ''capital_ship_blueprints'' \<and> n \<in> fst ` set (capital_ships (module_registry s))
      then map_option (\<lambda>b. b\<lparr>owned := False\<rparr>) (record_at cfg1 c n)
      else record_at cfg1 c n)"
    by (rule reset_records)
  finally show ?thesis unfolding c1 by auto
qed

lemma reset_all_other_category:
  assumes "c \<noteq> ''ship_blueprints''" and "c \<noteq> ''capital_ship_blueprints''"
  shows "blueprint_config (snd (reset_all_ship_ownership sv s)) c = blueprint_config s c"
proof -
  obtain h1 cfg1 where st: "fold (reset_ship ''ship_blueprints'') (ships (module_registry s))
      (objects s, blueprint_config s) = (h1, cfg1)"
    by (cases "fold (reset_ship ''ship_blueprints'') (ships (module_registry s))
      (objects s, blueprint_config s)")
  have "cfg1 c = blueprint_config s c"
    using reset_other_category [OF assms(1), of "ships (module_registry s)" "objects s"
        "blueprint_config s"] st by simp
  moreover have "blueprint_config (snd (reset_all_ship_ownership sv s)) c =
        snd (fold (reset_ship ''capital_ship_blueprints'')
          (capital_ships (module_registry s)) (h1, cfg1)) c"
    by (simp add: reset_all_ship_ownership_def st Let_def)
  ultimately show ?thesis
    using reset_other_category [OF assms(2), of "capital_ships (module_registry s)" h1 cfg1]
    by simp
qed

text \<open>
  C6, as amended: when every registered ship and capital ship carries \<open>owned_status\<close>,
  after \<open>reset_all_ship_ownership\<close> each of them has \<open>owned_status\<close> false; every
  overlay record under \<open>ship_blueprints\<close> whose name is a registered ship, and every
  record under \<open>capital_ship_blueprints\<close> whose name is a registered capital ship, has
  \<open>owned\<close> false; the records of other names under these two categories are as before;
  the \<open>me\<close> and \<open>te\<close> fields of every record are as before; and every other category
  (components and capital components among them) is as before.
\<close>

theorem reset_clears_registered_ships:
  assumes "\<forall>ship\<in>snd ` set (ships (module_registry s)) \<union>
             snd ` set (capital_ships (module_registry s)). owned_status (objects s ship) \<noteq> None"
    and "s' = snd (reset_all_ship_ownership save_blueprint_ownership s)"
  shows "(\<forall>ship\<in>snd ` set (ships (module_registry s)) \<union>
             snd ` set (capital_ships (module_registry s)).
            owned_status (objects s' ship) = Some (PBool False)) \<and>
         (\<forall>n b. n \<in> fst ` set (ships (module_registry s)) \<and>
            record_at (blueprint_config s') ''ship_blueprints'' n = Some b \<longrightarrow> \<not> owned b) \<and>
         (\<forall>n b. n \<in> fst ` set (capital_ships (module_registry s)) \<and>
            record_at (blueprint_config s') ''capital_ship_blueprints'' n = Some b \<longrightarrow> \<not> owned b) \<and>
         (\<forall>n. n \<notin> fst ` set (ships (module_registry s)) \<longrightarrow>
            record_at (blueprint_config s') ''ship_blueprints'' n =
            record_at (blueprint_config s) ''ship_blueprints'' n) \<and>
         (\<forall>n. n \<notin> fst ` set (capital_ships (module_registry s)) \<longrightarrow>
            record_at (blueprint_config s') ''capital_ship_blueprints'' n =
            record_at (blueprint_config s) ''capital_ship_blueprints'' n) \<and>
         (\<forall>c n. map_option me (record_at (blueprint_config s') c n) =
                   map_option me (record_at (blueprint_config s) c n) \<and>
                 map_option te (record_at (blueprint_config s') c n) =
                   map_option te (record_at (blueprint_config s) c n)) \<and>
         (\<forall>c. c \<noteq> ''ship_blueprints'' \<and> c \<noteq> ''capital_ship_blueprints'' \<longrightarrow>
            blueprint_config s' c = blueprint_config s c)"
proof -
  have heap: "\<forall>ship\<in>snd ` set (ships (module_registry s)) \<union>
             snd ` set (capital_ships (module_registry s)).
            owned_status (objects s' ship) = Some (PBool False)"
    using assms(1) unfolding assms(2) reset_all_heap by auto
  have ships: "\<forall>n b. n \<in> fst ` set (ships (module_registry s)) \<and>
            record_at (blueprint_config s') ''ship_blueprints'' n = Some b \<longrightarrow> \<not> owned b"
    unfolding assms(2) reset_all_records by auto
  have caps: "\<forall>n b. n \<in> fst ` set (capital_ships (module_registry s)) \<and>
            record_at (blueprint_config s') ''capital_ship_blueprints'' n = Some b \<longrightarrow> \<not> owned b"
    unfolding assms(2) reset_all_records by auto
  have rest: "\<forall>n. n \<notin> fst ` set (ships (module_registry s)) \<longrightarrow>
            record_at (blueprint_config s') ''ship_blueprints'' n =
            record_at (blueprint_config s) ''ship_blueprints'' n"
    "\<forall>n. n \<notin> fst ` set (capital_ships (module_registry s)) \<longrightarrow>
            record_at (blueprint_config s') ''capital_ship_blueprints'' n =
            record_at (blueprint_config s) ''capital_ship_blueprints'' n"
    unfolding assms(2) reset_all_records by simp_all
  have eff: "\<forall>c n. map_option me (record_at (blueprint_config s') c n) =
                   map_option me (record_at (blueprint_config s) c n) \<and>
                 map_option te (record_at (blueprint_config s') c n) =
                   map_option te (record_at (blueprint_config s) c n)"
    unfolding assms(2) reset_all_records by (simp add: option.map_comp comp_def)
  have other: "\<forall>c. c \<noteq> ''ship_blueprints'' \<and> c \<noteq> ''capital_ship_blueprints'' \<longrightarrow>
            blueprint_config s' c = blueprint_config s c"
    unfolding assms(2) by (simp add: reset_all_other_category)
  from heap ships caps rest eff other show ?thesis by (intro conjI)
qed

theorem reset_clears_registered_ships_witness:
  "owned_status (objects (snd (reset_all_ship_ownership flush_ok reset_demo)) 0) =
     Some (PBool False) \<and>
   map_option owned (record_at (blueprint_config (snd (reset_all_ship_ownership flush_ok reset_demo)))
     ''ship_blueprints'' ''rifter'') = Some False \<and>
   map_option me (record_at (blueprint_config (snd (reset_all_ship_ownership flush_ok reset_demo)))
     ''ship_blueprints'' ''rifter'') = Some 7 \<and>
   map_option te (record_at (blueprint_config (snd (reset_all_ship_ownership flush_ok reset_demo)))
     ''ship_blueprints'' ''rifter'') = Some 12 \<and>
   record_at (blueprint_config (snd (reset_all_ship_ownership flush_ok reset_demo)))
     ''components'' ''armor plates'' = Some \<lparr>owned = True, invented = False, me = 10, te = 20\<rparr>"
proof -
  define s' where "s' = snd (reset_all_ship_ownership flush_ok reset_demo)"
  have reg: "ships (module_registry reset_demo) = [(''rifter'', 0)]"
    "capital_ships (module_registry reset_demo) = []"
    by (simp_all add: reset_demo_def register_ship_def new_registry_def demo_heap_def
        demo_ship_def Let_def)
  have hyp: "\<forall>ship\<in>snd ` set (ships (module_registry reset_demo)) \<union>
      snd ` set (capital_ships (module_registry reset_demo)).
      owned_status (objects reset_demo ship) \<noteq> None"
    by (simp add: reg) (simp add: reset_demo_def demo_heap_def demo_ship_def)
  note T = reset_clears_registered_ships [OF hyp s'_def]
  have old: "record_at (blueprint_config reset_demo) ''ship_blueprints'' ''rifter'' =
      Some \<lparr>owned = True, invented = False, me = 7, te = 12\<rparr>"
    "record_at (blueprint_config reset_demo) ''components'' ''armor plates'' =
      Some \<lparr>owned = True, invented = False, me = 10, te = 20\<rparr>"
    by (simp_all add: reset_demo_def record_at_set_record)
  have "0 \<in> snd ` set (ships (module_registry reset_demo)) \<union>
      snd ` set (capital_ships (module_registry reset_demo))"
    by (simp add: reg)
  with T [THEN conjunct1] have a: "owned_status (objects s' 0) = Some (PBool False)"
    by (rule bspec)
  from T have eff: "map_option me (record_at (blueprint_config s') ''ship_blueprints'' ''rifter'') =
      map_option me (record_at (blueprint_config reset_demo) ''ship_blueprints'' ''rifter'')"
    "map_option te (record_at (blueprint_config s') ''ship_blueprints'' ''rifter'') =
      map_option te (record_at (blueprint_config reset_demo) ''ship_blueprints'' ''rifter'')"
    by metis+
  then have b: "map_option me (record_at (blueprint_config s') ''ship_blueprints'' ''rifter'') = Some 7"
    and c: "map_option te (record_at (blueprint_config s') ''ship_blueprints'' ''rifter'') = Some 12"
    by (simp_all add: old)
  then obtain r where r: "record_at (blueprint_config s') ''ship_blueprints'' ''rifter'' = Some r"
    by auto
  have "''rifter'' \<in> fst ` set (ships (module_registry reset_demo))"
    by (simp add: reg)
  with T [THEN conjunct2, THEN conjunct1] r have "\<not> owned r" by metis
  with r have d: "map_option owned (record_at (blueprint_config s') ''ship_blueprints'' ''rifter'')
      = Some False" by simp
  have "''components'' \<noteq> ''ship_blueprints'' \<and> ''components'' \<noteq> ''capital_ship_blueprints''"
    by simp
  with T have "blueprint_config s' ''components'' = blueprint_config reset_demo ''components''"
    by metis
  then have e: "record_at (blueprint_config s') ''components'' ''armor plates'' =
      Some \<lparr>owned = True, invented = False, me = 10, te = 20\<rparr>"
    using old(2) by (simp add: record_at_def)
  from a b c d e show ?thesis unfolding s'_def by (intro conjI)
qed


text \<open>
  C6 as stated fails: a record under \<open>ship_blueprints\<close> whose name is not a registered
  ship is still owned after the reset.
\<close>

theorem reset_leaves_unregistered_record_owned:
  "record_at (blueprint_config (snd (reset_all_ship_ownership flush_ok reset_demo)))
     ''ship_blueprints'' ''retired hull'' =
   Some \<lparr>owned = True, invented = False, me = 2, te = 4\<rparr>"
proof -
  have "fst ` set (ships (module_registry reset_demo)) = {''rifter''}"
    by (simp add: reset_demo_def register_ship_def new_registry_def demo_heap_def demo_ship_def
        Let_def)
  then show ?thesis
    by (simp add: reset_all_records) (simp add: reset_demo_def record_at_set_record)
qed

section \<open>Repeated bulk save\<close>

lemma is_assignment_comp:
  assumes "is_assignment f" and "is_assignment g"
  shows "is_assignment (\<lambda>r. f (g r))"
proof -
  have a: "(\<forall>r. owned (f (g r)) = owned r) \<or> (\<exists>v. \<forall>r. owned (f (g r)) = v)"
    using assms unfolding is_assignment_def by metis
  have b: "(\<forall>r. invented (f (g r)) = invented r) \<or> (\<exists>v. \<forall>r. invented (f (g r)) = v)"
    using assms unfolding is_assignment_def by metis
  have c: "(\<forall>r. me (f (g r)) = me r) \<or> (\<exists>v. \<forall>r. me (f (g r)) = v)"
    using assms unfolding is_assignment_def by metis
  have d: "(\<forall>r. te (f (g r)) = te r) \<or> (\<exists>v. \<forall>r. te (f (g r)) = v)"
    using assms unfolding is_assignment_def by metis
  from a b c d show ?thesis unfolding is_assignment_def by simp
qed

lemma is_assignment_idem:
  assumes "is_assignment g"
  shows "g (g r) = g r"
proof -
  have "owned (g (g r)) = owned (g r)" "invented (g (g r)) = invented (g r)"
    "me (g (g r)) = me (g r)" "te (g (g r)) = te (g r)"
    using assms unfolding is_assignment_def by metis+
  then show ?thesis by simp
qed

lemma record_at_put:
  "record_at (put c n g cfg) c' n' =
     (if c' = c \<and> n' = n then Some (g (record_or_default cfg c n)) else record_at cfg c' n')"
  by (simp add: put_def record_at_set_record record_or_default_def)

lemma put_category:
  "put c n g cfg c' = None \<longleftrightarrow> cfg c' = None \<and> c' \<noteq> c"
  by (simp add: put_def set_record_def)

lemma write_keys_simps [simp]:
  "write_keys [] = {}"
  "write_keys (None # ws) = write_keys ws"
  "write_keys (Some (c, n, g) # ws) = insert (c, n) (write_keys ws)"
  by (auto simp: write_keys_def)

lemma run_records:
  assumes "\<forall>c n g. Some (c, n, g) \<in> set ws \<longrightarrow> is_assignment g"
  shows "\<exists>G. is_assignment G \<and>
           (\<forall>cfg. record_at (fold apply_write ws cfg) c n =
              (if (c, n) \<in> write_keys ws then Some (G (record_or_default cfg c n))
               else record_at cfg c n))"
  using assms
proof (induction ws)
  case Nil
  have "is_assignment (\<lambda>r. r)" by (simp add: is_assignment_def)
  then show ?case by auto
next
  case (Cons w ws)
  then obtain G where G: "is_assignment G"
    and rec: "\<And>cfg. record_at (fold apply_write ws cfg) c n =
              (if (c, n) \<in> write_keys ws then Some (G (record_or_default cfg c n))
               else record_at cfg c n)"
    by auto
  show ?case
  proof (cases w)
    case None
    with G rec show ?thesis by auto
  next
    case (Some t)
    obtain c' n' g where t: "t = (c', n', g)" by (cases t)
    with Some Cons.prems have g: "is_assignment g" by auto
    show ?thesis
    proof (cases "c' = c \<and> n' = n")
      case False
      then have "\<And>cfg. record_or_default (put c' n' g cfg) c n = record_or_default cfg c n"
        "\<And>cfg. record_at (put c' n' g cfg) c n = record_at cfg c n"
        by (auto simp: record_or_default_def record_at_put)
      with G rec Some t False show ?thesis
        by (intro exI [of _ G]) auto
    next
      case True
      then have hit: "\<And>cfg. record_or_default (put c' n' g cfg) c n = g (record_or_default cfg c n)"
        "\<And>cfg. record_at (put c' n' g cfg) c n = Some (g (record_or_default cfg c n))"
        by (auto simp: record_or_default_def record_at_put)
      show ?thesis
      proof (cases "(c, n) \<in> write_keys ws")
        case True
        have "is_assignment (\<lambda>r. G (g r))" using G g by (rule is_assignment_comp)
        with rec hit Some t True \<open>c' = c \<and> n' = n\<close> show ?thesis
          by (intro exI [of _ "\<lambda>r. G (g r)"]) auto
      next
        case False
        with rec hit Some t g \<open>c' = c \<and> n' = n\<close> show ?thesis
          by (intro exI [of _ g]) auto
      qed
    qed
  qed
qed

lemma run_category:
  "fold apply_write ws cfg c = None \<longleftrightarrow> cfg c = None \<and> c \<notin> fst ` write_keys ws"
proof (induction ws arbitrary: cfg)
  case Nil
  then show ?case by simp
next
  case (Cons w ws)
  show ?case
  proof (cases w)
    case None
    with Cons show ?thesis by simp
  next
    case (Some t)
    obtain c' n' g where t: "t = (c', n', g)" by (cases t)
    with Some Cons.IH [of "put c' n' g cfg"] show ?thesis
      by (auto simp: put_category)
  qed
qed

lemma overlay_eqI:
  assumes "\<And>c. cfg c = None \<longleftrightarrow> cfg' c = None"
    and "\<And>c n. record_at cfg c n = record_at cfg' c n"
  shows "cfg = (cfg' :: overlay)"
proof
  fix c
  show "cfg c = cfg' c"
  proof (cases "cfg c")
    case None
    with assms(1) show ?thesis by simp
  next
    case (Some e)
    with assms(1) [of c] obtain e' where e': "cfg' c = Some e'" by auto
    have "e n = e' n" for n using assms(2) [of c n] Some e' by (simp add: record_at_def)
    then have "e = e'" by (rule ext)
    with Some e' show ?thesis by simp
  qed
qed

lemma run_idempotent:
  assumes "\<forall>c n g. Some (c, n, g) \<in> set ws \<longrightarrow> is_assignment g"
  shows "fold apply_write ws (fold apply_write ws cfg) = fold apply_write ws cfg"
proof (rule overlay_eqI)
  fix c
  show "fold apply_write ws (fold apply_write ws cfg) c = None \<longleftrightarrow>
        fold apply_write ws cfg c = None"
    by (auto simp: run_category)
next
  fix c n
  from run_records [OF assms, of c n] obtain G where G: "is_assignment G"
    and rec: "\<And>cfg. record_at (fold apply_write ws cfg) c n =
              (if (c, n) \<in> write_keys ws then Some (G (record_or_default cfg c n))
               else record_at cfg c n)"
    by auto
  show "record_at (fold apply_write ws (fold apply_write ws cfg)) c n =
        record_at (fold apply_write ws cfg) c n"
  proof (cases "(c, n) \<in> write_keys ws")
    case True
    then have "record_or_default (fold apply_write ws cfg) c n = G (record_or_default cfg c n)"
      by (simp add: record_or_default_def rec)
    with True show ?thesis by (simp add: rec is_assignment_idem [OF G])
  next
    case False
    then show ?thesis by (simp add: rec)
  qed
qed

lemma update_blueprint_me_put: "update_blueprint_me cfg c n v = put c n (\<lambda>r. r\<lparr>me := v\<rparr>) cfg"
  by (simp add: update_blueprint_me_def put_def split: option.splits)

lemma update_blueprint_te_put: "update_blueprint_te cfg c n v = put c n (\<lambda>r. r\<lparr>te := v\<rparr>) cfg"
  by (simp add: update_blueprint_te_def put_def split: option.splits)

lemma save_capital_component_ownership_put:
  "save_capital_component_ownership n m cfg =
     put ''component_blueprints'' n (\<lambda>r. r\<lparr>owned := (ownership_var m = Some ''owned'')\<rparr>) cfg"
  by (simp add: save_capital_component_ownership_def put_def default_blueprint_def Let_def
      split: option.splits)

lemma read_digits_value:
  "\<not> raises_in_ownership_step m \<Longrightarrow>
   read_digits (me_var m) = Inr (digits_value (me_var m)) \<and>
   read_digits (te_var m) = Inr (digits_value (te_var m))"
  by (auto simp: raises_in_ownership_step_def read_digits_def digits_value_def
      split: option.splits)

lemma save_ownership_put:
  assumes "\<not> raises_in_ownership_step m"
  shows "save_ownership c n m cfg =
     Inr (put c n (\<lambda>r. r\<lparr>owned := (ownership_var m = Some ''owned''),
                     invented := (case invented_var m of None \<Rightarrow> False | Some b \<Rightarrow> b),
                     me := digits_value (me_var m),
                     te := digits_value (te_var m)\<rparr>) cfg)"
  using read_digits_value [OF assms]
  by (simp add: save_ownership_def put_def default_blueprint_def Let_def split: option.splits)

lemma ownership_step_write:
  assumes "c = get_category_from_module_type cn" and "c \<noteq> []"
  shows "ownership_step cn c h e cfg = apply_write (ownership_write h cn e) cfg"
proof -
  obtain n r where e: "e = (n, r)" by (cases e)
  show ?thesis
  proof (cases "raises_in_ownership_step (h r)")
    case True
    then show ?thesis
      using assms e
      by (simp add: ownership_write_def save_capital_component_ownership_put
          save_ownership_raises)
  next
    case False
    then show ?thesis
      using assms e
      by (simp add: ownership_write_def save_capital_component_ownership_put
          save_ownership_put)
  qed
qed

lemma ownership_write_skip:
  "get_category_from_module_type cn = [] \<Longrightarrow> ownership_write h cn e = None"
  by (simp add: ownership_write_def)

lemma fold_apply_write_None: "\<forall>w\<in>set ws. w = None \<Longrightarrow> fold apply_write ws cfg = cfg"
  by (induction ws arbitrary: cfg) auto

lemma ownership_pass_writes:
  "ownership_pass h (cn, ms) cfg = fold apply_write (map (ownership_write h cn) ms) cfg"
proof (cases "get_category_from_module_type cn = []")
  case True
  then have "fold apply_write (map (ownership_write h cn) ms) cfg = cfg"
    by (intro fold_apply_write_None) (simp add: ownership_write_skip)
  with True show ?thesis by simp
next
  case False
  have "fold (ownership_step cn (get_category_from_module_type cn) h) ms cfg =
        fold apply_write (map (ownership_write h cn) ms) cfg"
  proof (induction ms arbitrary: cfg)
    case Nil
    then show ?case by simp
  next
    case (Cons e ms)
    from ownership_step_write [OF refl False] Cons show ?case
      by (simp del: ownership_step.simps)
  qed
  with False show ?thesis by (cases ms) (simp_all add: Let_def del: ownership_step.simps)
qed

lemma ownership_loop_writes:
  "fold (ownership_pass h) dm cfg = fold apply_write (writes_of (ownership_write h) dm) cfg"
proof (induction dm arbitrary: cfg)
  case Nil
  then show ?case by (simp add: writes_of_def)
next
  case (Cons p dm)
  obtain cn ms where p: "p = (cn, ms)" by (cases p)
  have "fold (ownership_pass h) (p # dm) cfg =
        fold (ownership_pass h) dm (fold apply_write (map (ownership_write h cn) ms) cfg)"
    using p by (simp add: ownership_pass_writes del: ownership_pass.simps)
  also have "\<dots> = fold apply_write (writes_of (ownership_write h) dm)
                    (fold apply_write (map (ownership_write h cn) ms) cfg)"
    by (rule Cons.IH)
  also have "\<dots> = fold apply_write (writes_of (ownership_write h) (p # dm)) cfg"
    using p by (simp add: writes_of_def)
  finally show ?case .
qed

lemma py_int_zero: "py_int ''0'' = Some 0"
  by (simp add: py_int_eval)

lemma text_value_zero: "text_value ''0'' = 0"
  by (simp add: text_value_def py_int_zero)

lemma not_resets_zero: "\<not> resets ''0''"
  by (simp add: resets_def py_int_zero)

lemma resets_text_value: "resets t \<Longrightarrow> text_value t = 0"
  by (simp add: resets_def text_value_def split: option.splits)

lemma text_rel_refl: "text_rel v v"
  by (simp add: text_rel_def split: option.splits)

lemma heap_rel_refl: "heap_rel h h"
  unfolding heap_rel_def
proof
  fix r
  have "h r = (h r)\<lparr>me_var := me_var (h r), te_var := te_var (h r)\<rparr>" by simp
  then show "\<exists>a b. h r = (h r)\<lparr>me_var := a, te_var := b\<rparr> \<and>
             text_rel (me_var (h r)) a \<and> text_rel (te_var (h r)) b"
    using text_rel_refl by blast
qed

lemma heap_relD:
  assumes "heap_rel h g"
  shows "ownership_var (g r) = ownership_var (h r)"
    and "invented_var (g r) = invented_var (h r)"
    and "text_rel (me_var (h r)) (me_var (g r))"
    and "text_rel (te_var (h r)) (te_var (g r))"
proof -
  from assms obtain a b where "g r = (h r)\<lparr>me_var := a, te_var := b\<rparr>"
    and "text_rel (me_var (h r)) a" and "text_rel (te_var (h r)) b"
    unfolding heap_rel_def by blast
  then show "ownership_var (g r) = ownership_var (h r)"
    and "invented_var (g r) = invented_var (h r)"
    and "text_rel (me_var (h r)) (me_var (g r))"
    and "text_rel (te_var (h r)) (te_var (g r))"
    by simp_all
qed

lemma heap_rel_me_update:
  assumes "heap_rel h g" and "text_rel (me_var (h r)) a"
  shows "heap_rel h (g(r := (g r)\<lparr>me_var := a\<rparr>))"
  unfolding heap_rel_def
proof
  fix r'
  from assms(1) obtain a' b' where g: "g r' = (h r')\<lparr>me_var := a', te_var := b'\<rparr>"
    and ta: "text_rel (me_var (h r')) a'" and tb: "text_rel (te_var (h r')) b'"
    unfolding heap_rel_def by blast
  show "\<exists>x y. (g(r := (g r)\<lparr>me_var := a\<rparr>)) r' = (h r')\<lparr>me_var := x, te_var := y\<rparr> \<and>
             text_rel (me_var (h r')) x \<and> text_rel (te_var (h r')) y"
  proof (cases "r' = r")
    case True
    with g have "(g(r := (g r)\<lparr>me_var := a\<rparr>)) r' = (h r')\<lparr>me_var := a, te_var := b'\<rparr>"
      by simp
    with assms(2) tb True show ?thesis by blast
  next
    case False
    with g ta tb show ?thesis by auto
  qed
qed

lemma heap_rel_te_update:
  assumes "heap_rel h g" and "text_rel (te_var (h r)) b"
  shows "heap_rel h (g(r := (g r)\<lparr>te_var := b\<rparr>))"
  unfolding heap_rel_def
proof
  fix r'
  from assms(1) obtain a' b' where g: "g r' = (h r')\<lparr>me_var := a', te_var := b'\<rparr>"
    and ta: "text_rel (me_var (h r')) a'" and tb: "text_rel (te_var (h r')) b'"
    unfolding heap_rel_def by blast
  show "\<exists>x y. (g(r := (g r)\<lparr>te_var := b\<rparr>)) r' = (h r')\<lparr>me_var := x, te_var := y\<rparr> \<and>
             text_rel (me_var (h r')) x \<and> text_rel (te_var (h r')) y"
  proof (cases "r' = r")
    case True
    with g have "(g(r := (g r)\<lparr>te_var := b\<rparr>)) r' = (h r')\<lparr>me_var := a', te_var := b\<rparr>"
      by simp
    with assms(2) ta True show ?thesis by blast
  next
    case False
    with g ta tb show ?thesis by auto
  qed
qed

lemma has_records_apply_write:
  "has_records K cfg \<Longrightarrow> has_records K (apply_write w cfg)"
proof (cases w)
  case None
  then show "has_records K cfg \<Longrightarrow> ?thesis" by simp
next
  case (Some t)
  obtain c n g where "t = (c, n, g)" by (cases t)
  with Some show "has_records K cfg \<Longrightarrow> ?thesis"
    by (auto simp: has_records_def record_at_put)
qed

lemma has_records_run:
  "has_records K cfg \<Longrightarrow> has_records K (fold apply_write ws cfg)"
  by (induction ws arbitrary: cfg) (simp_all add: has_records_apply_write)

lemma has_records_written:
  "K \<subseteq> write_keys ws \<Longrightarrow> has_records K (fold apply_write ws cfg)"
proof (induction ws arbitrary: cfg K)
  case Nil
  then show ?case by (simp add: has_records_def)
next
  case (Cons w ws)
  show ?case
  proof (cases w)
    case None
    with Cons show ?thesis by simp
  next
    case (Some t)
    obtain c n g where t: "t = (c, n, g)" by (cases t)
    have a: "has_records (K - {(c, n)}) (fold apply_write ws (put c n g cfg))"
      using Cons.prems Some t by (intro Cons.IH) auto
    have "has_records {(c, n)} (put c n g cfg)"
      by (simp add: has_records_def record_at_put)
    then have b: "has_records {(c, n)} (fold apply_write ws (put c n g cfg))"
      by (rule has_records_run)
    from a b have "has_records K (fold apply_write ws (put c n g cfg))"
      unfolding has_records_def by blast
    with Some t show ?thesis by simp
  qed
qed

lemma me_step_write:
  assumes rel: "heap_rel h g"
    and guard: "cn = ''capital_components'' \<and> unparsed (me_var (h r)) \<longrightarrow>
                record_at cfg ''component_blueprints'' n \<noteq> None"
  shows "\<exists>g'. me_step cn (get_category_from_module_type cn) (n, r) (g, cfg) =
               (g', apply_write (me_write h cn (n, r)) cfg) \<and> heap_rel h g'"
proof (cases "me_var (h r)")
  case None
  with heap_relD(3) [OF rel, of r] have "me_var (g r) = None" by (simp add: text_rel_def)
  with None rel show ?thesis by (simp add: me_write_def)
next
  case (Some t)
  with heap_relD(3) [OF rel, of r]
  consider (same) "me_var (g r) = Some t" | (zero) "resets t" "me_var (g r) = Some ''0''"
    by (auto simp: text_rel_def)
  then show ?thesis
  proof cases
    case zero
    have "text_value t = 0" using zero(1) by (rule resets_text_value)
    with zero Some rel show ?thesis
      by (simp add: py_int_zero me_write_def write_category_def update_blueprint_me_put put_def
          default_blueprint_def split: option.splits)
  next
    case same
    show ?thesis
    proof (cases "py_int t")
      case None
      then have tv: "text_value t = 0" and rs: "resets t"
        by (simp_all add: text_value_def resets_def)
      from rs Some have "text_rel (me_var (h r)) (Some ''0'')" by (simp add: text_rel_def)
      with rel have h': "heap_rel h (g(r := (g r)\<lparr>me_var := Some ''0''\<rparr>))"
        by (rule heap_rel_me_update)
      from None Some guard have ex: "cn = ''capital_components'' \<longrightarrow>
          record_at cfg ''component_blueprints'' n \<noteq> None"
        by (simp add: unparsed_def)
      show ?thesis
        using same None tv h' ex Some
        by (auto simp: me_write_def write_category_def update_blueprint_me_put put_def Let_def
            split: option.splits)
    next
      case (Some k)
      show ?thesis
      proof (cases "k < 0")
        case True
        with Some have tv: "text_value t = 0" and rs: "resets t"
          by (simp_all add: text_value_def resets_def)
        from rs \<open>me_var (h r) = Some t\<close> have "text_rel (me_var (h r)) (Some ''0'')"
          by (simp add: text_rel_def)
        with rel have h': "heap_rel h (g(r := (g r)\<lparr>me_var := Some ''0''\<rparr>))"
          by (rule heap_rel_me_update)
        show ?thesis
          using same Some True tv h' \<open>me_var (h r) = Some t\<close>
          by (auto simp: me_write_def write_category_def update_blueprint_me_put put_def Let_def
              default_blueprint_def split: option.splits)
      next
        case False
        with Some have tv: "text_value t = k" by (simp add: text_value_def)
        show ?thesis
          using same Some False tv rel \<open>me_var (h r) = Some t\<close>
          by (auto simp: me_write_def write_category_def update_blueprint_me_put put_def Let_def
              default_blueprint_def split: option.splits)
      qed
    qed
  qed
qed

lemma te_step_write:
  assumes rel: "heap_rel h g"
    and guard: "cn = ''capital_components'' \<and> unparsed (te_var (h r)) \<longrightarrow>
                record_at cfg ''component_blueprints'' n \<noteq> None"
  shows "\<exists>g'. te_step cn (get_category_from_module_type cn) (n, r) (g, cfg) =
               (g', apply_write (te_write h cn (n, r)) cfg) \<and> heap_rel h g'"
proof (cases "te_var (h r)")
  case None
  with heap_relD(4) [OF rel, of r] have "te_var (g r) = None" by (simp add: text_rel_def)
  with None rel show ?thesis by (simp add: te_write_def)
next
  case (Some t)
  with heap_relD(4) [OF rel, of r]
  consider (same) "te_var (g r) = Some t" | (zero) "resets t" "te_var (g r) = Some ''0''"
    by (auto simp: text_rel_def)
  then show ?thesis
  proof cases
    case zero
    have "text_value t = 0" using zero(1) by (rule resets_text_value)
    with zero Some rel show ?thesis
      by (simp add: py_int_zero te_write_def write_category_def update_blueprint_te_put put_def
          default_blueprint_def split: option.splits)
  next
    case same
    show ?thesis
    proof (cases "py_int t")
      case None
      then have tv: "text_value t = 0" and rs: "resets t"
        by (simp_all add: text_value_def resets_def)
      from rs Some have "text_rel (te_var (h r)) (Some ''0'')" by (simp add: text_rel_def)
      with rel have h': "heap_rel h (g(r := (g r)\<lparr>te_var := Some ''0''\<rparr>))"
        by (rule heap_rel_te_update)
      from None Some guard have ex: "cn = ''capital_components'' \<longrightarrow>
          record_at cfg ''component_blueprints'' n \<noteq> None"
        by (simp add: unparsed_def)
      show ?thesis
        using same None tv h' ex Some
        by (auto simp: te_write_def write_category_def update_blueprint_te_put put_def Let_def
            split: option.splits)
    next
      case (Some k)
      show ?thesis
      proof (cases "k < 0")
        case True
        with Some have tv: "text_value t = 0" and rs: "resets t"
          by (simp_all add: text_value_def resets_def)
        from rs \<open>te_var (h r) = Some t\<close> have "text_rel (te_var (h r)) (Some ''0'')"
          by (simp add: text_rel_def)
        with rel have h': "heap_rel h (g(r := (g r)\<lparr>te_var := Some ''0''\<rparr>))"
          by (rule heap_rel_te_update)
        show ?thesis
          using same Some True tv h' \<open>te_var (h r) = Some t\<close>
          by (auto simp: te_write_def write_category_def update_blueprint_te_put put_def Let_def
              default_blueprint_def split: option.splits)
      next
        case False
        with Some have tv: "text_value t = k" by (simp add: text_value_def)
        show ?thesis
          using same Some False tv rel \<open>te_var (h r) = Some t\<close>
          by (auto simp: te_write_def write_category_def update_blueprint_te_put put_def Let_def
              default_blueprint_def split: option.splits)
      qed
    qed
  qed
qed


lemma me_fold_writes:
  assumes "heap_rel h g" and "has_records K cfg"
    and "\<forall>e\<in>set ms. cn = ''capital_components'' \<and> unparsed (me_var (h (snd e))) \<longrightarrow>
           (''component_blueprints'', fst e) \<in> K"
  shows "\<exists>g'. fold (me_step cn (get_category_from_module_type cn)) ms (g, cfg) =
               (g', fold apply_write (map (me_write h cn) ms) cfg) \<and> heap_rel h g'"
  using assms
proof (induction ms arbitrary: g cfg)
  case Nil
  then show ?case by simp
next
  case (Cons e ms)
  obtain n r where e: "e = (n, r)" by (cases e)
  from Cons.prems(2,3) e have "cn = ''capital_components'' \<and> unparsed (me_var (h r)) \<longrightarrow>
                record_at cfg ''component_blueprints'' n \<noteq> None"
    by (auto simp: has_records_def)
  from me_step_write [OF Cons.prems(1) this] obtain g1
    where step: "me_step cn (get_category_from_module_type cn) (n, r) (g, cfg) =
               (g1, apply_write (me_write h cn (n, r)) cfg)" and rel: "heap_rel h g1"
    by blast
  have "has_records K (apply_write (me_write h cn (n, r)) cfg)"
    using Cons.prems(2) by (rule has_records_apply_write)
  from Cons.IH [OF rel this] Cons.prems(3) step e show ?case
    by (simp del: me_step.simps)
qed

lemma te_fold_writes:
  assumes "heap_rel h g" and "has_records K cfg"
    and "\<forall>e\<in>set ms. cn = ''capital_components'' \<and> unparsed (te_var (h (snd e))) \<longrightarrow>
           (''component_blueprints'', fst e) \<in> K"
  shows "\<exists>g'. fold (te_step cn (get_category_from_module_type cn)) ms (g, cfg) =
               (g', fold apply_write (map (te_write h cn) ms) cfg) \<and> heap_rel h g'"
  using assms
proof (induction ms arbitrary: g cfg)
  case Nil
  then show ?case by simp
next
  case (Cons e ms)
  obtain n r where e: "e = (n, r)" by (cases e)
  from Cons.prems(2,3) e have "cn = ''capital_components'' \<and> unparsed (te_var (h r)) \<longrightarrow>
                record_at cfg ''component_blueprints'' n \<noteq> None"
    by (auto simp: has_records_def)
  from te_step_write [OF Cons.prems(1) this] obtain g1
    where step: "te_step cn (get_category_from_module_type cn) (n, r) (g, cfg) =
               (g1, apply_write (te_write h cn (n, r)) cfg)" and rel: "heap_rel h g1"
    by blast
  have "has_records K (apply_write (te_write h cn (n, r)) cfg)"
    using Cons.prems(2) by (rule has_records_apply_write)
  from Cons.IH [OF rel this] Cons.prems(3) step e show ?case
    by (simp del: te_step.simps)
qed

lemma me_loop_writes:
  assumes "heap_rel h g" and "has_records K cfg"
    and "\<forall>p\<in>set dm. \<forall>e\<in>set (snd p).
           fst p = ''capital_components'' \<and> unparsed (me_var (h (snd e))) \<longrightarrow>
           (''component_blueprints'', fst e) \<in> K"
  shows "\<exists>g'. fold me_pass dm (g, cfg) =
               (g', fold apply_write (writes_of (me_write h) dm) cfg) \<and> heap_rel h g'"
  using assms
proof (induction dm arbitrary: g cfg)
  case Nil
  then show ?case by (simp add: writes_of_def)
next
  case (Cons p dm)
  obtain cn ms where p: "p = (cn, ms)" by (cases p)
  from Cons.prems(3) p have "\<forall>e\<in>set ms. cn = ''capital_components'' \<and>
      unparsed (me_var (h (snd e))) \<longrightarrow> (''component_blueprints'', fst e) \<in> K"
    by auto
  from me_fold_writes [OF Cons.prems(1,2) this] obtain g1
    where step: "fold (me_step cn (get_category_from_module_type cn)) ms (g, cfg) =
               (g1, fold apply_write (map (me_write h cn) ms) cfg)" and rel: "heap_rel h g1"
    by blast
  have "has_records K (fold apply_write (map (me_write h cn) ms) cfg)"
    using Cons.prems(2) by (rule has_records_run)
  from Cons.IH [OF rel this] Cons.prems(3) step p show ?case
    by (simp add: writes_of_def)
qed

lemma te_loop_writes:
  assumes "heap_rel h g" and "has_records K cfg"
    and "\<forall>p\<in>set dm. \<forall>e\<in>set (snd p).
           fst p = ''capital_components'' \<and> unparsed (te_var (h (snd e))) \<longrightarrow>
           (''component_blueprints'', fst e) \<in> K"
  shows "\<exists>g'. fold te_pass dm (g, cfg) =
               (g', fold apply_write (writes_of (te_write h) dm) cfg) \<and> heap_rel h g'"
  using assms
proof (induction dm arbitrary: g cfg)
  case Nil
  then show ?case by (simp add: writes_of_def)
next
  case (Cons p dm)
  obtain cn ms where p: "p = (cn, ms)" by (cases p)
  from Cons.prems(3) p have "\<forall>e\<in>set ms. cn = ''capital_components'' \<and>
      unparsed (te_var (h (snd e))) \<longrightarrow> (''component_blueprints'', fst e) \<in> K"
    by auto
  from te_fold_writes [OF Cons.prems(1,2) this] obtain g1
    where step: "fold (te_step cn (get_category_from_module_type cn)) ms (g, cfg) =
               (g1, fold apply_write (map (te_write h cn) ms) cfg)" and rel: "heap_rel h g1"
    by blast
  have "has_records K (fold apply_write (map (te_write h cn) ms) cfg)"
    using Cons.prems(2) by (rule has_records_run)
  from Cons.IH [OF rel this] Cons.prems(3) step p show ?case
    by (simp add: writes_of_def)
qed

lemma set_int_strip: "set (int_strip t) \<subseteq> set t"
proof -
  have "set (int_strip t) \<subseteq> set (dropWhile int_space t)"
    unfolding int_strip_def using set_dropWhileD by fastforce
  also have "\<dots> \<subseteq> set t" using set_dropWhileD by fastforce
  finally show ?thesis .
qed

lemma minus_not_digit: "\<not> py_isdigit_char (CHR ''-'')"
  by (simp add: py_isdigit_char_def is_decimal_def)

lemma negative_not_isdigit:
  assumes "py_int t = Some k" and "k < 0"
  shows "\<not> py_isdigit t"
proof -
  from assms have "\<exists>cs. int_strip t = CHR ''-'' # cs"
    by (auto simp: py_int_def Let_def split: list.splits if_splits)
  then have "CHR ''-'' \<in> set (int_strip t)" by auto
  with set_int_strip have "CHR ''-'' \<in> set t" by blast
  with minus_not_digit show ?thesis
    by (auto simp: py_isdigit_def list_all_iff)
qed

lemma isdigit_zero: "py_isdigit ''0''"
  by (simp add: py_isdigit_def py_isdigit_char_def is_decimal_def)

lemma read_digits_rel:
  assumes "text_rel v v'" and "read_digits v \<noteq> Inl ValueError"
  shows "read_digits v' \<noteq> Inl ValueError \<and> digits_value v' = digits_value v"
proof (cases v)
  case None
  with assms show ?thesis by (simp add: text_rel_def)
next
  case (Some t)
  with assms(1) consider "v' = Some t" | "resets t" "v' = Some ''0''"
    by (auto simp: text_rel_def)
  then show ?thesis
  proof cases
    case 1
    with Some assms(2) show ?thesis by simp
  next
    case 2
    have "\<not> py_isdigit t"
    proof
      assume d: "py_isdigit t"
      show False
      proof (cases "py_int t")
        case None
        with d Some assms(2) show False by (simp add: read_digits_def)
      next
        case (Some k)
        with 2(1) have "k < 0" by (simp add: resets_def)
        with Some d negative_not_isdigit show False by blast
      qed
    qed
    with 2 Some show ?thesis
      by (simp add: read_digits_def digits_value_def isdigit_zero py_int_zero)
  qed
qed

lemma ownership_write_rel:
  assumes "heap_rel h g" and "entry_ok cn (h (snd e))"
  shows "ownership_write g cn e = ownership_write h cn e"
proof -
  let ?m = "h (snd e)" and ?m' = "g (snd e)"
  note d = heap_relD [OF assms(1), of "snd e"]
  show ?thesis
  proof (cases "cn = ''capital_components'' \<or> ownership_var ?m = None \<or>
      get_category_from_module_type cn = []")
    case True
    then show ?thesis by (auto simp: ownership_write_def d)
  next
    case False
    with assms(2) have nr: "\<not> raises_in_ownership_step ?m" by (auto simp: entry_ok_def)
    then have "read_digits (me_var ?m) \<noteq> Inl ValueError" "read_digits (te_var ?m) \<noteq> Inl ValueError"
      by (simp_all add: raises_in_ownership_step_def)
    with read_digits_rel d(3,4)
    have "read_digits (me_var ?m') \<noteq> Inl ValueError \<and> digits_value (me_var ?m') = digits_value (me_var ?m)"
      and "read_digits (te_var ?m') \<noteq> Inl ValueError \<and> digits_value (te_var ?m') = digits_value (te_var ?m)"
      by blast+
    then have "\<not> raises_in_ownership_step ?m'"
      and "digits_value (me_var ?m') = digits_value (me_var ?m)"
      and "digits_value (te_var ?m') = digits_value (te_var ?m)"
      by (simp_all add: raises_in_ownership_step_def)
    with nr show ?thesis by (simp add: ownership_write_def d)
  qed
qed


lemma texts_okD:
  "texts_ok dm h \<Longrightarrow> p \<in> set dm \<Longrightarrow> e \<in> set (snd p) \<Longrightarrow> entry_ok (fst p) (h (snd e))"
  by (auto simp: texts_ok_def list_all_iff)

lemma ownership_writes_rel:
  assumes "heap_rel h g" and "texts_ok dm h"
  shows "writes_of (ownership_write g) dm = writes_of (ownership_write h) dm"
proof -
  have "map (\<lambda>p. map (ownership_write g (fst p)) (snd p)) dm =
        map (\<lambda>p. map (ownership_write h (fst p)) (snd p)) dm"
  proof (rule map_cong [OF refl], rule map_cong [OF refl])
    fix p e assume "p \<in> set dm" and "e \<in> set (snd p)"
    with assms(2) have "entry_ok (fst p) (h (snd e))" by (rule texts_okD)
    with assms(1) show "ownership_write g (fst p) e = ownership_write h (fst p) e"
      by (rule ownership_write_rel)
  qed
  then show ?thesis unfolding writes_of_def by (rule arg_cong [where f = concat])
qed

lemma writes_of_memI:
  assumes "p \<in> set dm" and "e \<in> set (snd p)"
  shows "w (fst p) e \<in> set (writes_of w dm)"
proof -
  have "w (fst p) e \<in> set (map (w (fst p)) (snd p))" using assms(2) by simp
  moreover have "map (w (fst p)) (snd p) \<in> set (map (\<lambda>p. map (w (fst p)) (snd p)) dm)"
    using assms(1) by simp
  ultimately show ?thesis unfolding writes_of_def set_concat by blast
qed

lemma writes_of_memD: "x \<in> set (writes_of w dm) \<Longrightarrow> \<exists>cn e. x = w cn e"
  by (auto simp: writes_of_def)

lemma capital_keys_written: "capital_keys dm h \<subseteq> write_keys (writes_of (ownership_write h) dm)"
proof
  fix k assume "k \<in> capital_keys dm h"
  then obtain p e where k: "k = (''component_blueprints'', fst e)"
    and p: "p \<in> set dm" and e: "e \<in> set (snd p)" and c: "fst p = ''capital_components''"
    and o: "ownership_var (h (snd e)) \<noteq> None"
    unfolding capital_keys_def by blast
  from c o have "ownership_write h (fst p) e =
      Some (''component_blueprints'', fst e,
            \<lambda>r. r\<lparr>owned := (ownership_var (h (snd e)) = Some ''owned'')\<rparr>)"
    by (simp add: ownership_write_def category_fallbacks)
  with writes_of_memI [OF p e, of "ownership_write h"] k
  show "k \<in> write_keys (writes_of (ownership_write h) dm)"
    unfolding write_keys_def by auto
qed

lemma capital_keys_guard:
  assumes "texts_ok dm h"
  shows "\<forall>p\<in>set dm. \<forall>e\<in>set (snd p).
           fst p = ''capital_components'' \<and> unparsed (me_var (h (snd e))) \<longrightarrow>
           (''component_blueprints'', fst e) \<in> capital_keys dm h"
    and "\<forall>p\<in>set dm. \<forall>e\<in>set (snd p).
           fst p = ''capital_components'' \<and> unparsed (te_var (h (snd e))) \<longrightarrow>
           (''component_blueprints'', fst e) \<in> capital_keys dm h"
proof -
  have "(''component_blueprints'', fst e) \<in> capital_keys dm h"
    if "p \<in> set dm" "e \<in> set (snd p)" "fst p = ''capital_components''"
      "unparsed (me_var (h (snd e))) \<or> unparsed (te_var (h (snd e)))" for p e
  proof -
    from texts_okD [OF assms that(1,2)] that(3,4) have "ownership_var (h (snd e)) \<noteq> None"
      by (auto simp: entry_ok_def)
    with that(1,2,3) show ?thesis unfolding capital_keys_def by blast
  qed
  then show "\<forall>p\<in>set dm. \<forall>e\<in>set (snd p).
           fst p = ''capital_components'' \<and> unparsed (me_var (h (snd e))) \<longrightarrow>
           (''component_blueprints'', fst e) \<in> capital_keys dm h"
    and "\<forall>p\<in>set dm. \<forall>e\<in>set (snd p).
           fst p = ''capital_components'' \<and> unparsed (te_var (h (snd e))) \<longrightarrow>
           (''component_blueprints'', fst e) \<in> capital_keys dm h"
    by blast+
qed

lemma bulk_loops_writes:
  assumes "texts_ok dm h" and "heap_rel h g"
  shows "\<exists>g'. bulk_loops dm (g, cfg) = (g', fold apply_write (bulk_writes dm h) cfg) \<and>
               heap_rel h g'"
proof -
  let ?c1 = "fold apply_write (writes_of (ownership_write h) dm) cfg"
  have l1: "fold (ownership_pass g) dm cfg = ?c1"
    by (simp add: ownership_loop_writes ownership_writes_rel [OF assms(2,1)])
  have k1: "has_records (capital_keys dm h) ?c1"
    using capital_keys_written by (rule has_records_written)
  from me_loop_writes [OF assms(2) k1 capital_keys_guard(1) [OF assms(1)]] obtain g1
    where l2: "fold me_pass dm (g, ?c1) =
               (g1, fold apply_write (writes_of (me_write h) dm) ?c1)" and r1: "heap_rel h g1"
    by blast
  have k2: "has_records (capital_keys dm h) (fold apply_write (writes_of (me_write h) dm) ?c1)"
    using k1 by (rule has_records_run)
  from te_loop_writes [OF r1 k2 capital_keys_guard(2) [OF assms(1)]] obtain g2
    where l3: "fold te_pass dm (g1, fold apply_write (writes_of (me_write h) dm) ?c1) =
               (g2, fold apply_write (writes_of (te_write h) dm)
                      (fold apply_write (writes_of (me_write h) dm) ?c1))"
      and r2: "heap_rel h g2"
    by blast
  have "bulk_loops dm (g, cfg) = (g2, fold apply_write (bulk_writes dm h) cfg)"
    by (simp add: bulk_loops_def l1 l2 l3 bulk_writes_def)
  with r2 show ?thesis by blast
qed

lemma ownership_write_assignment:
  "Some (c, n, f) = ownership_write h cn e \<Longrightarrow> is_assignment f"
  by (auto simp: ownership_write_def is_assignment_def split: if_splits)

lemma me_write_assignment: "Some (c, n, f) = me_write h cn e \<Longrightarrow> is_assignment f"
  by (auto simp: me_write_def is_assignment_def split: option.splits)

lemma te_write_assignment: "Some (c, n, f) = te_write h cn e \<Longrightarrow> is_assignment f"
  by (auto simp: te_write_def is_assignment_def split: option.splits)

lemma bulk_writes_assignments:
  "\<forall>c n f. Some (c, n, f) \<in> set (bulk_writes dm h) \<longrightarrow> is_assignment f"
proof (intro allI impI)
  fix c n f assume "Some (c, n, f) \<in> set (bulk_writes dm h)"
  then have "Some (c, n, f) \<in> set (writes_of (ownership_write h) dm) \<or>
             Some (c, n, f) \<in> set (writes_of (me_write h) dm) \<or>
             Some (c, n, f) \<in> set (writes_of (te_write h) dm)"
    by (simp add: bulk_writes_def)
  then show "is_assignment f"
  proof (elim disjE)
    assume "Some (c, n, f) \<in> set (writes_of (ownership_write h) dm)"
    from writes_of_memD [OF this] obtain cn e where "Some (c, n, f) = ownership_write h cn e"
      by blast
    then show ?thesis by (rule ownership_write_assignment)
  next
    assume "Some (c, n, f) \<in> set (writes_of (me_write h) dm)"
    from writes_of_memD [OF this] obtain cn e where "Some (c, n, f) = me_write h cn e"
      by blast
    then show ?thesis by (rule me_write_assignment)
  next
    assume "Some (c, n, f) \<in> set (writes_of (te_write h) dm)"
    from writes_of_memD [OF this] obtain cn e where "Some (c, n, f) = te_write h cn e"
      by blast
    then show ?thesis by (rule te_write_assignment)
  qed
qed

text \<open>
  On a state where no module outside the capital components makes the first loop raise
  and every capital component with a non-integer ME or TE text has an ownership variable,
  a second bulk save that follows the first with no edit in between leaves the overlay
  exactly as the first one left it.
\<close>

lemma bulk_save_idempotent:
  assumes "texts_ok (discovered_modules s) (objects s)"
  shows "blueprint_config
           (snd (update_all_ownership_values save_blueprint_ownership
              (snd (update_all_ownership_values save_blueprint_ownership s)))) =
         blueprint_config (snd (update_all_ownership_values save_blueprint_ownership s))"
proof -
  let ?dm = "discovered_modules s" and ?h = "objects s"
  let ?W = "bulk_writes ?dm ?h"
  from bulk_loops_writes [OF assms heap_rel_refl] obtain g1
    where first: "bulk_loops ?dm (?h, blueprint_config s) =
                  (g1, fold apply_write ?W (blueprint_config s))" and r1: "heap_rel ?h g1"
    by blast
  from bulk_loops_writes [OF assms r1] obtain g2
    where second: "bulk_loops ?dm (g1, fold apply_write ?W (blueprint_config s)) =
                  (g2, fold apply_write ?W (fold apply_write ?W (blueprint_config s)))"
    by blast
  have "fold apply_write ?W (fold apply_write ?W (blueprint_config s)) =
        fold apply_write ?W (blueprint_config s)"
    using bulk_writes_assignments by (rule run_idempotent)
  with first second show ?thesis
    by (simp add: update_all_ownership_values_def Let_def)
qed

lemma bulk_save_idempotent_example:
  "blueprint_config (snd (update_all_ownership_values flush_ok
       (snd (update_all_ownership_values flush_ok mixed_manager)))) =
   blueprint_config (snd (update_all_ownership_values flush_ok mixed_manager))"
proof (rule bulk_save_idempotent)
  have "py_int ''x'' = None" "py_int ''abc'' = None" "py_int ''-3'' = Some (- 3)"
    by (simp_all add: py_int_eval)
  moreover have "\<not> py_isdigit ''abc''" "\<not> py_isdigit ''-3''"
    by (simp_all add: py_isdigit_def py_isdigit_char_def is_decimal_def)
  ultimately show "texts_ok (discovered_modules mixed_manager) (objects mixed_manager)"
    by (simp add: texts_ok_def entry_ok_def mixed_manager_def grid_module_def
        raises_in_ownership_step_def read_digits_def)
qed

lemma superscript_text: "py_isdigit [CHR 0xB2]" "py_int [CHR 0xB2] = None"
  by (simp_all add: py_isdigit_def py_isdigit_char_def is_decimal_def py_int_eval)

text \<open>
  C3: a ship marked as owned whose ME text is a superscript two, which \<open>isdigit\<close>
  accepts and \<open>int\<close> rejects. The first bulk save skips the write of its ownership (the
  \<open>try\<close> raises) and its record under \<open>ships\<close>, created by the ME loop, is unowned; the
  ME loop has reset the text, so the second bulk save writes that record as owned. The
  overlay after the second bulk save is not the overlay after the first.
\<close>

theorem bulk_save_twice_differs:
  "record_at (blueprint_config (snd (update_all_ownership_values flush_ok superscript_manager)))
     ''ships'' ''rifter'' = Some \<lparr>owned = False, invented = False, me = 0, te = 0\<rparr> \<and>
   record_at (blueprint_config (snd (update_all_ownership_values flush_ok
       (snd (update_all_ownership_values flush_ok superscript_manager)))))
     ''ships'' ''rifter'' = Some \<lparr>owned = True, invented = False, me = 0, te = 0\<rparr> \<and>
   blueprint_config (snd (update_all_ownership_values flush_ok
       (snd (update_all_ownership_values flush_ok superscript_manager)))) \<noteq>
   blueprint_config (snd (update_all_ownership_values flush_ok superscript_manager))"
proof -
  have first: "snd (update_all_ownership_values flush_ok superscript_manager) =
      superscript_manager
        \<lparr>objects := (\<lambda>r. grid_module ''rifter'' (Some ''owned'') (Some [CHR 0xB2]) (Some ''0''))
            (0 := grid_module ''rifter'' (Some ''owned'') (Some ''0'') (Some ''0'')),
         blueprint_config :=
           set_record
             (set_record Map.empty ''ship_blueprints'' ''rifter''
                \<lparr>owned = True, invented = False, me = 0, te = 0\<rparr>)
             ''ships'' ''rifter'' \<lparr>owned = False, invented = False, me = 0, te = 0\<rparr>\<rparr>"
    by (simp add: update_all_ownership_values_def bulk_loops_def superscript_manager_def
        grid_module_def category_fallbacks save_ownership_def read_digits_def superscript_text
        py_int_zero isdigit_zero record_at_set_record set_record_twice update_blueprint_me_def
        update_blueprint_te_def default_blueprint_def Let_def)
  have a: "record_at (blueprint_config (snd (update_all_ownership_values flush_ok superscript_manager)))
     ''ships'' ''rifter'' = Some \<lparr>owned = False, invented = False, me = 0, te = 0\<rparr>"
    by (simp add: first record_at_set_record)
  have b: "record_at (blueprint_config (snd (update_all_ownership_values flush_ok
       (snd (update_all_ownership_values flush_ok superscript_manager)))))
     ''ships'' ''rifter'' = Some \<lparr>owned = True, invented = False, me = 0, te = 0\<rparr>"
    unfolding first
    by (simp add: update_all_ownership_values_def bulk_loops_def superscript_manager_def
        grid_module_def category_fallbacks save_ownership_def read_digits_def
        py_int_zero isdigit_zero record_at_set_record set_record_twice update_blueprint_me_def
        update_blueprint_te_def default_blueprint_def Let_def)
  have c: "blueprint_config (snd (update_all_ownership_values flush_ok
       (snd (update_all_ownership_values flush_ok superscript_manager)))) \<noteq>
   blueprint_config (snd (update_all_ownership_values flush_ok superscript_manager))"
  proof
    assume "blueprint_config (snd (update_all_ownership_values flush_ok
       (snd (update_all_ownership_values flush_ok superscript_manager)))) =
      blueprint_config (snd (update_all_ownership_values flush_ok superscript_manager))"
    then have "record_at (blueprint_config (snd (update_all_ownership_values flush_ok
       (snd (update_all_ownership_values flush_ok superscript_manager))))) ''ships'' ''rifter'' =
      record_at (blueprint_config (snd (update_all_ownership_values flush_ok superscript_manager)))
        ''ships'' ''rifter''"
      by (rule arg_cong)
    with a b show False by simp
  qed
  from a b c show ?thesis by (intro conjI)
qed

section \<open>An exception in the bulk save\<close>



















text \<open>The bulk save of three ships of which the second makes the first loop raise: the
  records of the first and the third hold their ownership, and the record of the second,
  which the ME loop creates, is unowned.\<close>

lemma swallow_manager_records:
  "record_at (blueprint_config (snd (update_all_ownership_values flush_ok swallow_manager)))
     ''ships'' ''rifter'' = Some \<lparr>owned = True, invented = False, me = 3, te = 4\<rparr>"
  "record_at (blueprint_config (snd (update_all_ownership_values flush_ok swallow_manager)))
     ''ships'' ''slasher'' = Some \<lparr>owned = False, invented = False, me = 0, te = 0\<rparr>"
  "record_at (blueprint_config (snd (update_all_ownership_values flush_ok swallow_manager)))
     ''ships'' ''breacher'' = Some \<lparr>owned = True, invented = False, me = 3, te = 4\<rparr>"
proof -
  have a: "py_int ''3'' = Some 3" "py_int ''4'' = Some 4" "py_int ''0'' = Some 0"
    "py_int [CHR 0xB2] = None"
    by (simp_all add: py_int_eval)
  have c: "py_isdigit ''3''" "py_isdigit ''4''" "py_isdigit ''0''" "py_isdigit [CHR 0xB2]"
    by (simp_all add: py_isdigit_def py_isdigit_char_def is_decimal_def)
  show "record_at (blueprint_config (snd (update_all_ownership_values flush_ok swallow_manager)))
     ''ships'' ''rifter'' = Some \<lparr>owned = True, invented = False, me = 3, te = 4\<rparr>"
    "record_at (blueprint_config (snd (update_all_ownership_values flush_ok swallow_manager)))
     ''ships'' ''slasher'' = Some \<lparr>owned = False, invented = False, me = 0, te = 0\<rparr>"
    "record_at (blueprint_config (snd (update_all_ownership_values flush_ok swallow_manager)))
     ''ships'' ''breacher'' = Some \<lparr>owned = True, invented = False, me = 3, te = 4\<rparr>"
    by (simp_all add: update_all_ownership_values_def bulk_loops_def swallow_manager_def
        swallow_heap_def grid_module_def category_fallbacks save_ownership_def read_digits_def
        a c record_at_set_record update_blueprint_me_def
        update_blueprint_te_def default_blueprint_def Let_def)
qed





end
